theory Spec2Isabelle
  imports Main "HOL-Library.Word"
begin

section \<open>JavaScript strings and values\<close>

text \<open>
  A JavaScript string is a sequence of UTF-16 code units; \<open>.length\<close> counts code units.
  Literals of the source are ASCII and are embedded with \<open>str\<close>.
\<close>

type_synonym jschar = "16 word"
type_synonym jsstring = "jschar list"

definition str :: "string \<Rightarrow> jsstring" where
  "str cs = map (\<lambda>c. of_nat (of_char c)) cs"

text \<open>
  The values a parsed JSON request body can hold, and \<open>undefined\<close> for an absent
  property. A number is kept by what the handlers can observe of it: whether it is zero
  (the only falsy JSON numbers) and its \<open>ToString\<close> rendering. An object is the list
  of its own properties; \<open>JSON.parse\<close> leaves no duplicate keys.
\<close>

datatype jsnum = Num (numIsZero: bool) (numText: jsstring)

datatype jsval =
    JUndefined
  | JNull
  | JBool bool
  | JNumber jsnum
  | JString jsstring
  | JArray "jsval list"
  | JObject "(jsstring \<times> jsval) list"

text \<open>
  \<open>String.prototype.trim\<close> removes leading and trailing WhiteSpace and LineTerminator
  code points; the regular-expression class \<open>\s\<close> is the same set: TAB, LF, VT, FF, CR,
  SP, NBSP, U+1680, U+2000..U+200A, LS, PS, U+202F, U+205F, U+3000 and U+FEFF.
\<close>

definition isWhiteSpace :: "jschar \<Rightarrow> bool" where
  "isWhiteSpace c =
     (c = 0x09 \<or> c = 0x0A \<or> c = 0x0B \<or> c = 0x0C \<or> c = 0x0D \<or> c = 0x20 \<or> c = 0xA0 \<or>
      c = 0x1680 \<or> (0x2000 \<le> c \<and> c \<le> 0x200A) \<or> c = 0x2028 \<or> c = 0x2029 \<or>
      c = 0x202F \<or> c = 0x205F \<or> c = 0x3000 \<or> c = 0xFEFF)"

definition trim :: "jsstring \<Rightarrow> jsstring" where
  "trim s = rev (dropWhile isWhiteSpace (rev (dropWhile isWhiteSpace s)))"

text \<open>\<open>s.replace(/c/g, r)\<close> for a single-character pattern \<open>c\<close>.\<close>

definition replaceAll :: "jschar \<Rightarrow> jsstring \<Rightarrow> jsstring \<Rightarrow> jsstring" where
  "replaceAll c r s = concat (map (\<lambda>x. if x = c then r else [x]) s)"

definition startsWith :: "jsstring \<Rightarrow> jsstring \<Rightarrow> bool" where
  "startsWith s p = (take (length p) s = p)"

definition endsWith :: "jsstring \<Rightarrow> jsstring \<Rightarrow> bool" where
  "endsWith s p = (length p \<le> length s \<and> drop (length s - length p) s = p)"

fun includesStr :: "jsstring \<Rightarrow> jsstring \<Rightarrow> bool" where
  "includesStr [] p = (p = [])"
| "includesStr (c # cs) p = (startsWith (c # cs) p \<or> includesStr cs p)"

section \<open>Regular expressions of the shape used by the validator\<close>

text \<open>
  The pattern \<open>/^[^\s@]+@[^\s@]+\.[^\s@]+$/\<close> is a sequence of atoms, each a character
  class matched once or one-or-more times (greedy, with backtracking), anchored at both
  ends of the input. \<open>regexTest\<close> is \<open>RegExp.prototype.test\<close> for such a pattern.
\<close>

datatype quantifier = Once | OneOrMore

type_synonym regex = "((jschar \<Rightarrow> bool) \<times> quantifier) list"

fun regexTest :: "regex \<Rightarrow> jsstring \<Rightarrow> bool" where
  "regexTest [] s = (s = [])"
| "regexTest ((p, q) # r) [] = False"
| "regexTest ((p, Once) # r) (c # cs) = (p c \<and> regexTest r cs)"
| "regexTest ((p, OneOrMore) # r) (c # cs) =
     (p c \<and> (regexTest ((p, OneOrMore) # r) cs \<or> regexTest r cs))"

section \<open>Validator (api/submit-inquiry.js)\<close>

definition sanitizeHtml :: "jsval \<Rightarrow> jsstring" where
  "sanitizeHtml v =
     (case v of
        JString s \<Rightarrow>
          replaceAll 0x2F (str ''&#x2F;'')
            (replaceAll 0x27 (str ''&#x27;'')
              (replaceAll 0x22 (str ''&quot;'')
                (replaceAll 0x3E (str ''&gt;'')
                  (replaceAll 0x3C (str ''&lt;'')
                    (replaceAll 0x26 (str ''&amp;'') s)))))
      | _ \<Rightarrow> [])"

definition notSpaceOrAt :: "jschar \<Rightarrow> bool" where
  "notSpaceOrAt c = (\<not> isWhiteSpace c \<and> c \<noteq> 0x40)"

definition emailRegex :: regex where
  "emailRegex =
     [(notSpaceOrAt, OneOrMore), ((\<lambda>c. c = 0x40), Once),
      (notSpaceOrAt, OneOrMore), ((\<lambda>c. c = 0x2E), Once),
      (notSpaceOrAt, OneOrMore)]"

definition isValidEmail :: "jsstring \<Rightarrow> bool" where
  "isValidEmail email = regexTest emailRegex email"

definition isValidLength :: "jsval \<Rightarrow> nat \<Rightarrow> nat \<Rightarrow> bool" where
  "isValidLength v lo hi =
     (case v of JString s \<Rightarrow> length s \<ge> lo \<and> length s \<le> hi | _ \<Rightarrow> False)"

text \<open>
  Each text validator returns \<open>None\<close> for JavaScript's \<open>null\<close>. The last branch of
  the inner case is never taken: \<open>isValidLength\<close> has already refused every non-string.
\<close>

definition validateName :: "jsval \<Rightarrow> jsstring option" where
  "validateName name =
     (if \<not> isValidLength name 1 100 then None
      else case name of JString s \<Rightarrow> Some (sanitizeHtml (JString (trim s))) | _ \<Rightarrow> None)"

definition validateCompany :: "jsval \<Rightarrow> jsstring option" where
  "validateCompany company =
     (if \<not> isValidLength company 1 200 then None
      else case company of JString s \<Rightarrow> Some (sanitizeHtml (JString (trim s))) | _ \<Rightarrow> None)"

definition validateEmail :: "jsval \<Rightarrow> jsstring option" where
  "validateEmail email =
     (if \<not> isValidLength email 5 255 then None
      else case email of
             JString s \<Rightarrow>
               (let trimmed = trim s in
                if \<not> isValidEmail trimmed then None
                else Some (sanitizeHtml (JString trimmed)))
           | _ \<Rightarrow> None)"

definition validateCountry :: "jsval \<Rightarrow> jsstring option" where
  "validateCountry country =
     (if \<not> isValidLength country 1 100 then None
      else case country of JString s \<Rightarrow> Some (sanitizeHtml (JString (trim s))) | _ \<Rightarrow> None)"

definition validateMessage :: "jsval \<Rightarrow> jsstring option" where
  "validateMessage message =
     (if \<not> isValidLength message 10 5000 then None
      else case message of JString s \<Rightarrow> Some (sanitizeHtml (JString (trim s))) | _ \<Rightarrow> None)"

definition validProducts :: "jsval list" where
  "validProducts = [JString (str ''CBB60''), JString (str ''CBB61'')]"

text \<open>
  \<open>Array.prototype.includes\<close> compares with SameValueZero; against the two string
  literals of \<open>validProducts\<close> that is equality of values.
\<close>

definition validateProducts :: "jsval \<Rightarrow> jsstring list option" where
  "validateProducts products =
     (case products of
        JArray ps \<Rightarrow>
          (if length ps = 0 then None
           else
             (let sanitized = map sanitizeHtml (filter (\<lambda>p. p \<in> set validProducts) ps)
              in if length sanitized > 0 then Some sanitized else None))
      | _ \<Rightarrow> None)"

section \<open>Request handler (api/submit-inquiry.js)\<close>

subsection \<open>Configuration, request, response, effects\<close>

text \<open>\<open>process.env\<close>: each variable is a string or is not set.\<close>

record env =
  RESEND_API_KEY :: "jsstring option"
  TO_EMAIL :: "jsstring option"
  FROM_EMAIL :: "jsstring option"
  ALLOWED_ORIGINS :: "jsstring option"

text \<open>What the handler reads of \<open>req\<close>: \<open>req.method\<close>, \<open>req.headers.origin\<close>, \<open>req.body\<close>.\<close>

record request =
  reqMethod :: jsstring
  reqOrigin :: "jsstring option"
  reqBody :: jsval

text \<open>
  What the handler writes to \<open>res\<close>: the status, the headers in the order of the
  \<open>setHeader\<close> calls, and the object given to \<open>json\<close> (\<open>None\<close> after \<open>end()\<close>).
\<close>

record response =
  statusCode :: nat
  headers :: "(jsstring \<times> jsval) list"
  json :: "jsval option"

record emailPayload =
  mail_from :: jsstring
  mail_to :: "jsstring list"
  mail_subject :: jsstring
  mail_html :: jsstring
  mail_reply_to :: jsval

text \<open>
  The call \<open>fetch(url, {method, headers, body})\<close>; the body is kept as the object
  given to \<open>JSON.stringify\<close>.
\<close>

record fetch_request =
  url :: jsstring
  fetchMethod :: jsstring
  authorization :: jsstring
  contentType :: jsstring
  fetchBody :: emailPayload

text \<open>
  The mail provider's response as the handlers read it: \<open>ok\<close>, \<open>status\<close>,
  \<open>statusText\<close>, \<open>text()\<close>, and \<open>json()\<close>, which either rejects with an error
  (\<open>Inl\<close> its message) or gives the parsed value.
\<close>

record resend_response =
  ok :: bool
  status :: nat
  statusText :: jsstring
  bodyText :: jsstring
  bodyJson :: "jsstring + jsval"

datatype fetch_outcome = FetchRejected jsstring | FetchResolved resend_response

text \<open>
  The surroundings of one invocation: \<open>new Date().toISOString()\<close>, the answer of the
  network to a \<open>fetch\<close>, and the messages the JavaScript engine gives to the TypeErrors
  raised when \<open>req.body\<close> cannot be destructured, when \<open>.id\<close> is read of a value
  without properties, and when a value cannot be converted to a string.
\<close>

record runtime =
  now :: jsstring
  fetch :: "fetch_request \<Rightarrow> fetch_outcome"
  destructureMessage :: "jsval \<Rightarrow> jsstring"
  readIdMessage :: "jsval \<Rightarrow> jsstring"
  convertMessage :: "jsval \<Rightarrow> jsstring"

text \<open>
  Effects in program order. Of a \<open>console.log\<close> or \<open>console.error\<close> call the first
  argument (the fixed label) is recorded.
\<close>

datatype effect = ConsoleLog jsstring | ConsoleError jsstring | Fetch fetch_request

text \<open>A block either returns or throws an error with a message.\<close>

datatype 'a completion = Return 'a | Throw jsstring

subsection \<open>Helpers of the JavaScript library\<close>

text \<open>\<open>Array.prototype.join\<close> on strings.\<close>

fun joinStr :: "jsstring \<Rightarrow> jsstring list \<Rightarrow> jsstring" where
  "joinStr sep [] = []"
| "joinStr sep [x] = x"
| "joinStr sep (x # y # ys) = x @ sep @ joinStr sep (y # ys)"

text \<open>\<open>String.prototype.split\<close> with a single-character separator.\<close>

fun splitOn :: "jschar \<Rightarrow> jsstring \<Rightarrow> jsstring list" where
  "splitOn sep [] = [[]]"
| "splitOn sep (c # cs) =
     (if c = sep then [] # splitOn sep cs
      else (case splitOn sep cs of w # ws \<Rightarrow> (c # w) # ws | [] \<Rightarrow> [[c]]))"

text \<open>A multi-line piece of a template literal, given by its lines.\<close>

definition joinLines :: "string list \<Rightarrow> jsstring" where
  "joinLines ls = joinStr [0x0A] (map str ls)"

text \<open>
  Reading a property of a value that is neither \<open>undefined\<close> nor \<open>null\<close>: an own
  property of an object, and \<open>undefined\<close> otherwise (none of the names read by the
  handlers is defined on a prototype).
\<close>

definition getProp :: "jsval \<Rightarrow> jsstring \<Rightarrow> jsval" where
  "getProp v k =
     (case v of
        JObject kvs \<Rightarrow> (case map_of kvs k of Some x \<Rightarrow> x | None \<Rightarrow> JUndefined)
      | _ \<Rightarrow> JUndefined)"

text \<open>\<open>!x\<close> for a value that is a string or is \<open>undefined\<close>/\<open>null\<close>.\<close>

definition falsy :: "jsstring option \<Rightarrow> bool" where
  "falsy x = (case x of None \<Rightarrow> True | Some s \<Rightarrow> s = [])"

subsection \<open>CORS\<close>

definition getAllowedOrigins :: "env \<Rightarrow> jsstring list" where
  "getAllowedOrigins e =
     (if falsy (ALLOWED_ORIGINS e) then []
      else case ALLOWED_ORIGINS e of
             Some allowedOriginsEnv \<Rightarrow> map trim (splitOn 0x2C allowedOriginsEnv)
           | None \<Rightarrow> [])"

definition isOriginAllowed :: "jsstring \<Rightarrow> jsstring list \<Rightarrow> bool" where
  "isOriginAllowed origin allowedOrigins =
     (if length allowedOrigins = 0 then True
      else list_ex (\<lambda>allowed.
             if allowed = str ''*'' then True
             else if endsWith allowed (str ''*'') then startsWith origin (butlast allowed)
             else origin = allowed) allowedOrigins)"

definition corsHeaders :: "jsstring option \<Rightarrow> jsstring list \<Rightarrow> (jsstring \<times> jsval) list" where
  "corsHeaders origin allowedOrigins =
     (case origin of
        Some orig \<Rightarrow>
          if orig \<noteq> [] \<and> isOriginAllowed orig allowedOrigins
          then [(str ''Access-Control-Allow-Origin'', JString orig)]
          else if length allowedOrigins = 0
          then [(str ''Access-Control-Allow-Origin'', JString (str ''*''))]
          else []
      | None \<Rightarrow>
          if length allowedOrigins = 0
          then [(str ''Access-Control-Allow-Origin'', JString (str ''*''))]
          else []) @
     [(str ''Access-Control-Allow-Credentials'', JBool True),
      (str ''Access-Control-Allow-Methods'', JString (str ''GET,OPTIONS,PATCH,DELETE,POST,PUT'')),
      (str ''Access-Control-Allow-Headers'',
       JString (str ''X-CSRF-Token, X-Requested-With, Accept, Accept-Version, Content-Length, Content-MD5, Content-Type, Date, X-Api-Version''))]"

subsection \<open>The email document\<close>

text \<open>
  The template literal \<open>emailHTML\<close>, the same text in both handlers; its seven
  interpolations are the parameters.
\<close>

definition emailHTML ::
  "jsstring \<Rightarrow> jsstring \<Rightarrow> jsstring \<Rightarrow> jsstring \<Rightarrow> jsstring \<Rightarrow> jsstring \<Rightarrow> jsstring \<Rightarrow> jsstring" where
  "emailHTML name company email country productsList message submittedAt =
      joinLines
       ['''',
        ''            <!DOCTYPE html>'',
        ''            <html>'',
        ''            <head>'',
        ''                <style>'',
        ''                    body { font-family: Arial, sans-serif; line-height: 1.6; color: #333; }'',
        ''                    .container { max-width: 600px; margin: 0 auto; padding: 20px; }'',
        ''                    .header { background: linear-gradient(135deg, #c41e3a 0%, #a01830 100%); color: white; padding: 20px; text-align: center; border-radius: 8px 8px 0 0; }'',
        ''                    .content { background: #f9fafb; padding: 30px; border: 1px solid #e5e7eb; }'',
        ''                    .field { margin-bottom: 15px; }'',
        ''                    .label { font-weight: bold; color: #1a1a2e; }'',
        ''                    .value { margin-top: 5px; color: #6b7280; }'',
        ''                    .footer { text-align: center; margin-top: 20px; font-size: 12px; color: #9ca3af; }'',
        ''                </style>'',
        ''            </head>'',
        ''            <body>'',
        ''                <div class=\"container\">'',
        ''                    <div class=\"header\">'',
        ''                        <h2>New Inquiry from Landing Page</h2>'',
        ''                    </div>'',
        ''                    <div class=\"content\">'',
        ''                        <div class=\"field\">'',
        ''                            <div class=\"label\">Name:</div>'',
        ''                            <div class=\"value\">''] @
      name @
      joinLines
       [''</div>'',
        ''                        </div>'',
        ''                        <div class=\"field\">'',
        ''                            <div class=\"label\">Company:</div>'',
        ''                            <div class=\"value\">''] @
      company @
      joinLines
       [''</div>'',
        ''                        </div>'',
        ''                        <div class=\"field\">'',
        ''                            <div class=\"label\">Email:</div>'',
        ''                            <div class=\"value\">''] @
      email @
      joinLines
       [''</div>'',
        ''                        </div>'',
        ''                        <div class=\"field\">'',
        ''                            <div class=\"label\">Country:</div>'',
        ''                            <div class=\"value\">''] @
      country @
      joinLines
       [''</div>'',
        ''                        </div>'',
        ''                        <div class=\"field\">'',
        ''                            <div class=\"label\">Product Interest:</div>'',
        ''                            <div class=\"value\">''] @
      productsList @
      joinLines
       [''</div>'',
        ''                        </div>'',
        ''                        <div class=\"field\">'',
        ''                            <div class=\"label\">Message / Requirement:</div>'',
        ''                            <div class=\"value\">''] @
      message @
      joinLines
       [''</div>'',
        ''                        </div>'',
        ''                        <div class=\"field\">'',
        ''                            <div class=\"label\">Submitted at:</div>'',
        ''                            <div class=\"value\">''] @
      submittedAt @
      joinLines
       [''</div>'',
        ''                        </div>'',
        ''                    </div>'',
        ''                    <div class=\"footer\">'',
        ''                        <p>Motor Run Capacitor Manufacturer Landing Page</p>'',
        ''                    </div>'',
        ''                </div>'',
        ''            </body>'',
        ''            </html>'',
        ''        '']"

subsection \<open>The handler\<close>

definition failure :: "jsstring \<Rightarrow> jsval" where
  "failure msg = JObject [(str ''success'', JBool False), (str ''error'', JString msg)]"

text \<open>
  Lines 204 to 322: the validated values are embedded, the message is sent, and the
  provider's answer is mapped. \<open>FROM\<close> is the constant \<open>FROM_EMAIL\<close> of line 101.
\<close>

definition dispatch ::
  "jsstring \<Rightarrow> jsstring \<Rightarrow> jsstring \<Rightarrow> runtime \<Rightarrow>
   jsstring \<Rightarrow> jsstring \<Rightarrow> jsstring \<Rightarrow> jsstring \<Rightarrow> jsstring list \<Rightarrow> jsstring \<Rightarrow>
   (nat \<times> jsval) completion \<times> effect list" where
  "dispatch apiKey toEmail FROM rt sanitizedName sanitizedCompany sanitizedEmail
     sanitizedCountry sanitizedProducts sanitizedMessage =
     (let productsList = joinStr (str '', '') sanitizedProducts;
          html = emailHTML sanitizedName sanitizedCompany sanitizedEmail sanitizedCountry
                   productsList (replaceAll 0x0A (str ''<br>'') sanitizedMessage) (now rt);
          fromEmail = (if includesStr FROM (str ''resend.dev'') then FROM
                       else str ''Motor Run Capacitor <'' @ FROM @ str ''>'');
          emailPayload =
            \<lparr>mail_from = fromEmail,
             mail_to = [toEmail],
             mail_subject = str ''New Inquiry: '' @ sanitizedName @ str '' from '' @ sanitizedCompany,
             mail_html = html,
             mail_reply_to = JString sanitizedEmail\<rparr>;
          request =
            \<lparr>url = str ''https://api.resend.com/emails'',
             fetchMethod = str ''POST'',
             authorization = str ''Bearer '' @ apiKey,
             contentType = str ''application/json'',
             fetchBody = emailPayload\<rparr>;
          sending =
            [ConsoleLog (str ''Fields validated, preparing email...''),
             ConsoleLog (str ''Sending email via Resend API...''),
             ConsoleLog (str ''FROM_EMAIL:''),
             ConsoleLog (str ''TO_EMAIL:''),
             ConsoleLog (str ''RESEND_API_KEY (first 10 chars):''),
             ConsoleLog (str ''Using fromEmail:''),
             ConsoleLog (str ''Email payload:''),
             Fetch request]
      in case fetch rt request of
           FetchRejected msg \<Rightarrow> (Throw msg, sending)
         | FetchResolved resendResponse \<Rightarrow>
             (let answered = sending @
                    [ConsoleLog (str ''Resend response status:''),
                     ConsoleLog (str ''Resend response headers:'')]
              in if \<not> ok resendResponse then
                   (Throw (str ''Failed to send email''),
                    answered @
                    [ConsoleError (str ''=== RESEND API ERROR ===''),
                     ConsoleError (str ''Status:''),
                     ConsoleError (str ''Status Text:''),
                     ConsoleError (str ''Response Body (text):''),
                     ConsoleError (str ''Response Body (json):''),
                     ConsoleError (str ''========================'')])
                 else
                   (case bodyJson resendResponse of
                      Inl msg \<Rightarrow> (Throw msg, answered)
                    | Inr resendData \<Rightarrow>
                        (Return (200, JObject [(str ''success'', JBool True),
                                               (str ''message'', JString (str ''Inquiry submitted successfully''))]),
                         answered @ [ConsoleLog (str ''Email sent successfully:'')]))))"

text \<open>
  The \<open>try\<close> block, lines 149 to 322. Destructuring \<open>req.body\<close> throws a TypeError
  when the body is \<open>undefined\<close> or \<open>null\<close>. The six validators run first, then the
  six checks in order. The last branch of the final case is never taken: each checked
  value is known not to be \<open>null\<close> there.
\<close>

definition tryBlock ::
  "jsstring \<Rightarrow> jsstring \<Rightarrow> jsstring \<Rightarrow> runtime \<Rightarrow> jsval \<Rightarrow>
   (nat \<times> jsval) completion \<times> effect list" where
  "tryBlock apiKey toEmail FROM rt body =
     (let received = [ConsoleLog (str ''Received form submission'')] in
      if body = JUndefined \<or> body = JNull then (Throw (destructureMessage rt body), received)
      else
        (let name = getProp body (str ''name'');
             company = getProp body (str ''company'');
             email = getProp body (str ''email'');
             country = getProp body (str ''country'');
             products = getProp body (str ''products'');
             message = getProp body (str ''message'');
             sanitizedName = validateName name;
             sanitizedCompany = validateCompany company;
             sanitizedEmail = validateEmail email;
             sanitizedCountry = validateCountry country;
             sanitizedProducts = validateProducts products;
             sanitizedMessage = validateMessage message
         in if falsy sanitizedName then
              (Return (400, failure (str ''Invalid name. Please provide a valid name (1-100 characters).'')), received)
            else if falsy sanitizedCompany then
              (Return (400, failure (str ''Invalid company name. Please provide a valid company name (1-200 characters).'')), received)
            else if falsy sanitizedEmail then
              (Return (400, failure (str ''Invalid email address. Please provide a valid email.'')), received)
            else if falsy sanitizedCountry then
              (Return (400, failure (str ''Invalid country. Please provide a valid country (1-100 characters).'')), received)
            else if sanitizedProducts = None then
              (Return (400, failure (str ''Please select at least one product (CBB60 or CBB61).'')), received)
            else if falsy sanitizedMessage then
              (Return (400, failure (str ''Invalid message. Please provide a message (10-5000 characters).'')), received)
            else
              (case (sanitizedName, sanitizedCompany, sanitizedEmail, sanitizedCountry,
                     sanitizedProducts, sanitizedMessage) of
                 (Some n, Some c, Some e, Some k, Some ps, Some m) \<Rightarrow>
                   (case dispatch apiKey toEmail FROM rt n c e k ps m of
                      (result, effects) \<Rightarrow> (result, received @ effects))
               | _ \<Rightarrow> (Throw [], received))))"

definition handler :: "env \<Rightarrow> runtime \<Rightarrow> request \<Rightarrow> response \<times> effect list" where
  "handler e rt req =
     (let FROM = (if falsy (FROM_EMAIL e) then str ''noreply@eperscapacitor.com''
                  else case FROM_EMAIL e of Some f \<Rightarrow> f | None \<Rightarrow> str ''noreply@eperscapacitor.com'');
          allowedOrigins = getAllowedOrigins e
      in case RESEND_API_KEY e of
           None \<Rightarrow>
             (\<lparr>statusCode = 500, headers = [], json = Some (failure (str ''Server configuration error''))\<rparr>,
              [ConsoleError (str ''RESEND_API_KEY environment variable is not set'')])
         | Some apiKey \<Rightarrow>
             if apiKey = [] then
               (\<lparr>statusCode = 500, headers = [], json = Some (failure (str ''Server configuration error''))\<rparr>,
                [ConsoleError (str ''RESEND_API_KEY environment variable is not set'')])
             else
               (case TO_EMAIL e of
                  None \<Rightarrow>
                    (\<lparr>statusCode = 500, headers = [], json = Some (failure (str ''Server configuration error''))\<rparr>,
                     [ConsoleError (str ''TO_EMAIL environment variable is not set'')])
                | Some toEmail \<Rightarrow>
                    if toEmail = [] then
                      (\<lparr>statusCode = 500, headers = [], json = Some (failure (str ''Server configuration error''))\<rparr>,
                       [ConsoleError (str ''TO_EMAIL environment variable is not set'')])
                    else
                      (let hs = corsHeaders (reqOrigin req) allowedOrigins in
                       if reqMethod req = str ''OPTIONS'' then
                         (\<lparr>statusCode = 200, headers = hs, json = None\<rparr>, [])
                       else if reqMethod req \<noteq> str ''POST'' then
                         (\<lparr>statusCode = 405, headers = hs,
                           json = Some (JObject [(str ''error'', JString (str ''Method not allowed''))])\<rparr>, [])
                       else
                         (case tryBlock apiKey toEmail FROM rt (reqBody req) of
                            (Return (code, obj), effects) \<Rightarrow>
                              (\<lparr>statusCode = code, headers = hs, json = Some obj\<rparr>, effects)
                          | (Throw msg, effects) \<Rightarrow>
                              (\<lparr>statusCode = 500, headers = hs,
                                json = Some (failure (str ''An error occurred while processing your request. Please try again later.''))\<rparr>,
                               effects @ [ConsoleError (str ''Error processing inquiry:'')])))))"

section \<open>Legacy handler (submit-inquiry.js)\<close>

text \<open>\<open>ToBoolean\<close> on the values of a JSON body.\<close>

fun truthy :: "jsval \<Rightarrow> bool" where
  "truthy JUndefined = False"
| "truthy JNull = False"
| "truthy (JBool b) = b"
| "truthy (JNumber n) = (\<not> numIsZero n)"
| "truthy (JString s) = (s \<noteq> [])"
| "truthy (JArray xs) = True"
| "truthy (JObject kvs) = True"

text \<open>
  \<open>ToString\<close>, as a template literal and \<open>join\<close> apply it. It throws a TypeError for
  an object that has an own property \<open>toString\<close>: a parsed value is never callable, and
  the inherited \<open>valueOf\<close> gives back the object itself. Every other object inherits
  \<open>Object.prototype.toString\<close>. An array is its elements joined with a comma, where
  \<open>undefined\<close> and \<open>null\<close> elements give the empty string and the first element that
  cannot be converted throws. \<open>Inl\<close> is the object that could not be converted.
\<close>

fun firstError :: "('e + 'a) list \<Rightarrow> 'e + 'a list" where
  "firstError [] = Inr []"
| "firstError (Inl bad # xs) = Inl bad"
| "firstError (Inr x # xs) = (case firstError xs of Inl bad \<Rightarrow> Inl bad | Inr ys \<Rightarrow> Inr (x # ys))"

fun toStringJs :: "jsval \<Rightarrow> jsval + jsstring" where
  "toStringJs JUndefined = Inr (str ''undefined'')"
| "toStringJs JNull = Inr (str ''null'')"
| "toStringJs (JBool b) = Inr (if b then str ''true'' else str ''false'')"
| "toStringJs (JNumber n) = Inr (numText n)"
| "toStringJs (JString s) = Inr s"
| "toStringJs (JArray xs) =
     (case firstError
             (map (\<lambda>x. if x = JUndefined \<or> x = JNull then Inr [] else toStringJs x) xs) of
        Inl bad \<Rightarrow> Inl bad
      | Inr ss \<Rightarrow> Inr (joinStr (str '','') ss))"
| "toStringJs (JObject kvs) =
     (if map_of kvs (str ''toString'') \<noteq> None then Inl (JObject kvs)
      else Inr (str ''[object Object]''))"

text \<open>\<open>Array.prototype.join\<close> with a separator, on arbitrary elements.\<close>

definition joinVals :: "jsstring \<Rightarrow> jsval list \<Rightarrow> jsval + jsstring" where
  "joinVals sep xs =
     (case firstError
             (map (\<lambda>x. if x = JUndefined \<or> x = JNull then Inr [] else toStringJs x) xs) of
        Inl bad \<Rightarrow> Inl bad
      | Inr ss \<Rightarrow> Inr (joinStr sep ss))"

text \<open>The decimal rendering of an HTTP status.\<close>

function decimal :: "nat \<Rightarrow> jsstring" where
  "decimal n = (if n < 10 then [of_nat (48 + n)] else decimal (n div 10) @ [of_nat (48 + n mod 10)])"
  by pat_completeness auto
termination
  by (relation "measure (\<lambda>n. n)") auto

text \<open>
  Lines 103 to 137, given the six texts interpolated into the document: the message is
  sent and the provider's answer is mapped. The credential, the sender and the recipient
  are literals of the source; \<open>reply_to\<close> is the email field as received.
\<close>

definition legacySend ::
  "runtime \<Rightarrow> jsval \<Rightarrow> jsstring \<Rightarrow> jsstring \<Rightarrow> jsstring \<Rightarrow> jsstring \<Rightarrow> jsstring \<Rightarrow> jsstring \<Rightarrow>
   (nat \<times> jsval) completion \<times> effect list" where
  "legacySend rt email n c e k p m =
     (let html = emailHTML n c e k p m (now rt);
          request =
            \<lparr>url = str ''https://api.resend.com/emails'',
             fetchMethod = str ''POST'',
             authorization = str ''Bearer re_Wb6wExws_6bZtSDtaNp85tJTZt7Q8apVm'',
             contentType = str ''application/json'',
             fetchBody =
               \<lparr>mail_from = str ''Motor Run Capacitor <noreply@eperscapacitor.com>'',
                mail_to = [str ''sales@eperscapacitor.com''],
                mail_subject = str ''New Inquiry: '' @ n @ str '' from '' @ c,
                mail_html = html,
                mail_reply_to = email\<rparr>\<rparr>;
          sending =
            [ConsoleLog (str ''Fields validated, preparing email...''),
             ConsoleLog (str ''Sending email via Resend API...''),
             Fetch request]
      in case fetch rt request of
           FetchRejected msg \<Rightarrow> (Throw msg, sending)
         | FetchResolved resendResponse \<Rightarrow>
             (let answered = sending @ [ConsoleLog (str ''Resend response status:'')]
              in if \<not> ok resendResponse then
                   (Throw (str ''Resend API failed: '' @ decimal (status resendResponse) @
                           str '' - '' @ bodyText resendResponse),
                    answered @ [ConsoleError (str ''Resend API Error:'')])
                 else
                   (case bodyJson resendResponse of
                      Inl msg \<Rightarrow> (Throw msg, answered)
                    | Inr resendData \<Rightarrow>
                        if resendData = JUndefined \<or> resendData = JNull then
                          (Throw (readIdMessage rt resendData),
                           answered @ [ConsoleLog (str ''Email sent successfully:'')])
                        else
                          (Return (200, JObject [(str ''success'', JBool True),
                                                 (str ''message'', JString (str ''Inquiry submitted successfully'')),
                                                 (str ''emailId'', getProp resendData (str ''id''))]),
                           answered @ [ConsoleLog (str ''Email sent successfully:'')]))))"

text \<open>
  Lines 40 to 101: \<open>productsList\<close> is the joined array, or the value itself when it is
  no array; then the template literal converts name, company, email, country,
  \<open>productsList\<close> and message in this order. No field is checked further or escaped.
  A conversion that throws leaves the block before anything is sent.
\<close>

definition legacyDispatch ::
  "runtime \<Rightarrow> jsval \<Rightarrow> jsval \<Rightarrow> jsval \<Rightarrow> jsval \<Rightarrow> jsval \<Rightarrow> jsval \<Rightarrow>
   (nat \<times> jsval) completion \<times> effect list" where
  "legacyDispatch rt name company email country products message =
     (let thrown = (\<lambda>bad. (Throw (convertMessage rt bad),
                            [ConsoleLog (str ''Fields validated, preparing email...'')]))
      in case (case products of
                 JArray ps \<Rightarrow>
                   (case joinVals (str '', '') ps of
                      Inl bad \<Rightarrow> Inl bad
                    | Inr joined \<Rightarrow> Inr (JString joined))
               | _ \<Rightarrow> Inr products) of
           Inl bad \<Rightarrow> thrown bad
         | Inr productsList \<Rightarrow>
        (case toStringJs name of Inl bad \<Rightarrow> thrown bad | Inr n \<Rightarrow>
        (case toStringJs company of Inl bad \<Rightarrow> thrown bad | Inr c \<Rightarrow>
        (case toStringJs email of Inl bad \<Rightarrow> thrown bad | Inr e \<Rightarrow>
        (case toStringJs country of Inl bad \<Rightarrow> thrown bad | Inr k \<Rightarrow>
        (case toStringJs productsList of Inl bad \<Rightarrow> thrown bad | Inr p \<Rightarrow>
        (case toStringJs message of Inl bad \<Rightarrow> thrown bad | Inr m \<Rightarrow>
           legacySend rt email n c e k p m)))))))"

text \<open>The \<open>try\<close> block, lines 26 to 137.\<close>

definition legacyTryBlock ::
  "runtime \<Rightarrow> jsval \<Rightarrow> (nat \<times> jsval) completion \<times> effect list" where
  "legacyTryBlock rt body =
     (let received = [ConsoleLog (str ''Received form submission''),
                      ConsoleLog (str ''Request body:'')] in
      if body = JUndefined \<or> body = JNull then (Throw (destructureMessage rt body), received)
      else
        (let name = getProp body (str ''name'');
             company = getProp body (str ''company'');
             email = getProp body (str ''email'');
             country = getProp body (str ''country'');
             products = getProp body (str ''products'');
             message = getProp body (str ''message'')
         in if \<not> truthy name \<or> \<not> truthy company \<or> \<not> truthy email \<or> \<not> truthy country \<or>
               \<not> truthy products \<or> \<not> truthy message then
              (Return (400, JObject [(str ''error'', JString (str ''Missing required fields'')),
                                     (str ''received'',
                                      JObject [(str ''name'', name), (str ''company'', company),
                                               (str ''email'', email), (str ''country'', country),
                                               (str ''products'', products), (str ''message'', message)])]),
               received @ [ConsoleLog (str ''Missing fields:'')])
            else
              (case legacyDispatch rt name company email country products message of
                 (result, effects) \<Rightarrow> (result, received @ effects))))"

definition legacyHandler :: "runtime \<Rightarrow> request \<Rightarrow> response \<times> effect list" where
  "legacyHandler rt req =
     (let hs = [(str ''Access-Control-Allow-Credentials'', JBool True),
                (str ''Access-Control-Allow-Origin'', JString (str ''*'')),
                (str ''Access-Control-Allow-Methods'', JString (str ''GET,OPTIONS,PATCH,DELETE,POST,PUT'')),
                (str ''Access-Control-Allow-Headers'',
                 JString (str ''X-CSRF-Token, X-Requested-With, Accept, Accept-Version, Content-Length, Content-MD5, Content-Type, Date, X-Api-Version''))]
      in if reqMethod req = str ''OPTIONS'' then
           (\<lparr>statusCode = 200, headers = hs, json = None\<rparr>, [])
         else if reqMethod req \<noteq> str ''POST'' then
           (\<lparr>statusCode = 405, headers = hs,
             json = Some (JObject [(str ''error'', JString (str ''Method not allowed'')),
                                   (str ''received'', JString (reqMethod req))])\<rparr>, [])
         else
           (case legacyTryBlock rt (reqBody req) of
              (Return (code, obj), effects) \<Rightarrow>
                (\<lparr>statusCode = code, headers = hs, json = Some obj\<rparr>, effects)
            | (Throw msg, effects) \<Rightarrow>
                (\<lparr>statusCode = 500, headers = hs,
                  json = Some (JObject [(str ''success'', JBool False),
                                        (str ''error'',
                                         JString (if msg \<noteq> [] then msg
                                                  else str ''Failed to process inquiry''))])\<rparr>,
                 effects @ [ConsoleError (str ''Error processing inquiry:'')])))"

section \<open>Notions used in the statements\<close>

text \<open>The six characters that \<open>sanitizeHtml\<close> replaces.\<close>

definition specials :: "jschar set" where
  "specials = {0x26, 0x3C, 0x3E, 0x22, 0x27, 0x2F}"

text \<open>The replacement of one character by the six passes taken together.\<close>

definition esc :: "jschar \<Rightarrow> jsstring" where
  "esc c =
     (if c = 0x26 then str ''&amp;'' else if c = 0x3C then str ''&lt;''
      else if c = 0x3E then str ''&gt;'' else if c = 0x22 then str ''&quot;''
      else if c = 0x27 then str ''&#x27;'' else if c = 0x2F then str ''&#x2F;'' else [c])"

text \<open>
  Escaped text: none of \<open>< > " ' /\<close> occurs, and every \<open>&\<close> is followed by the rest of
  one of the six entities.
\<close>

definition entityTails :: "jsstring list" where
  "entityTails =
     [str ''amp;'', str ''lt;'', str ''gt;'', str ''quot;'', str ''#x27;'', str ''#x2F;'']"

fun escaped :: "jsstring \<Rightarrow> bool" where
  "escaped [] = True"
| "escaped (c # cs) =
     ((if c = 0x26 then list_ex (startsWith cs) entityTails else c \<notin> specials) \<and> escaped cs)"

text \<open>
  The shape of an accepted address as C6 words it: exactly one \<open>@\<close>, a non-whitespace
  character on each side of it, and a \<open>.\<close> in the part after it.
\<close>

definition claimedEmailShape :: "jsstring \<Rightarrow> bool" where
  "claimedEmailShape t =
     (count_list t 0x40 = 1 \<and>
      list_ex (\<lambda>c. \<not> isWhiteSpace c) (takeWhile (\<lambda>c. c \<noteq> 0x40) t) \<and>
      list_ex (\<lambda>c. \<not> isWhiteSpace c) (drop 1 (dropWhile (\<lambda>c. c \<noteq> 0x40) t)) \<and>
      0x2E \<in> set (drop 1 (dropWhile (\<lambda>c. c \<noteq> 0x40) t)))"

text \<open>The entries of a products array that are one of the two recognized codes, in order.\<close>

fun surviving :: "jsval list \<Rightarrow> jsstring list" where
  "surviving [] = []"
| "surviving (JString s # ps) =
     (if s = str ''CBB60'' \<or> s = str ''CBB61'' then s # surviving ps else surviving ps)"
| "surviving (p # ps) = surviving ps"

text \<open>The mail configuration is present: both required variables are set and non-empty.\<close>

definition configured :: "env \<Rightarrow> bool" where
  "configured e = (\<not> falsy (RESEND_API_KEY e) \<and> \<not> falsy (TO_EMAIL e))"

text \<open>The constant \<open>FROM_EMAIL\<close> of the handler: the configured sender, or the default.\<close>

definition sender :: "env \<Rightarrow> jsstring" where
  "sender e =
     (if falsy (FROM_EMAIL e) then str ''noreply@eperscapacitor.com''
      else case FROM_EMAIL e of Some f \<Rightarrow> f | None \<Rightarrow> str ''noreply@eperscapacitor.com'')"

text \<open>Outbound sends among the effects.\<close>

fun isFetch :: "effect \<Rightarrow> bool" where
  "isFetch (Fetch q) = True"
| "isFetch (ConsoleLog l) = False"
| "isFetch (ConsoleError l) = False"

fun sent :: "effect list \<Rightarrow> fetch_request list" where
  "sent [] = []"
| "sent (Fetch q # es) = q # sent es"
| "sent (ConsoleLog l # es) = sent es"
| "sent (ConsoleError l # es) = sent es"

text \<open>
  The six checks of the handler on the fields of a body, in their fixed order: whether
  the field fails (its validated value is \<open>null\<close> or, for a text field, empty), and
  the message of the field. \<open>firstFailure\<close> is the message of the first field that
  fails.
\<close>

definition checks :: "jsval \<Rightarrow> (bool \<times> jsstring) list" where
  "checks body =
     [(falsy (validateName (getProp body (str ''name''))),
       str ''Invalid name. Please provide a valid name (1-100 characters).''),
      (falsy (validateCompany (getProp body (str ''company''))),
       str ''Invalid company name. Please provide a valid company name (1-200 characters).''),
      (falsy (validateEmail (getProp body (str ''email''))),
       str ''Invalid email address. Please provide a valid email.''),
      (falsy (validateCountry (getProp body (str ''country''))),
       str ''Invalid country. Please provide a valid country (1-100 characters).''),
      (validateProducts (getProp body (str ''products'')) = None,
       str ''Please select at least one product (CBB60 or CBB61).''),
      (falsy (validateMessage (getProp body (str ''message''))),
       str ''Invalid message. Please provide a message (10-5000 characters).'')]"

definition firstFailure :: "jsval \<Rightarrow> jsstring option" where
  "firstFailure body = map_option snd (find fst (checks body))"

text \<open>
  The six texts the legacy handler interpolates for a body, in the order of the document:
  each is the conversion of the field as received (for a products array, its elements
  joined with \<open>", "\<close>), or \<open>Inl\<close> when the conversion throws.
\<close>

definition legacyTexts :: "jsval \<Rightarrow> (jsval + jsstring) list" where
  "legacyTexts body =
     [toStringJs (getProp body (str ''name'')),
      toStringJs (getProp body (str ''company'')),
      toStringJs (getProp body (str ''email'')),
      toStringJs (getProp body (str ''country'')),
      (case getProp body (str ''products'') of
         JArray ps \<Rightarrow> joinVals (str '', '') ps
       | _ \<Rightarrow> toStringJs (getProp body (str ''products''))),
      toStringJs (getProp body (str ''message''))]"

text \<open>A body with a field that cannot be converted to a string.\<close>

definition unprintable :: jsval where
  "unprintable =
     JObject [(str ''name'', JObject [(str ''toString'', JNumber (Num False (str ''1'')))]),
              (str ''company'', JString (str ''A/B'')),
              (str ''email'', JString (str ''tom@ab.com'')),
              (str ''country'', JString (str ''USA'')),
              (str ''products'', JArray [JString (str ''CBB60'')]),
              (str ''message'', JString (str ''Need <b>50</b> units''))]"

text \<open>The literals of the legacy handler: its credential, its sender and its recipient.\<close>

definition hardCoded :: "fetch_request \<Rightarrow> bool" where
  "hardCoded q =
     (authorization q = str ''Bearer re_Wb6wExws_6bZtSDtaNp85tJTZt7Q8apVm'' \<and>
      mail_from (fetchBody q) = str ''Motor Run Capacitor <noreply@eperscapacitor.com>'' \<and>
      mail_to (fetchBody q) = [str ''sales@eperscapacitor.com''])"

subsection \<open>Example inputs\<close>

text \<open>
  A configuration with the mail variables set and one with none set; a mail provider
  that answers with a non-success status and one that accepts; request bodies: the
  valid inquiry and the inquiry with a malformed address of the spec's scenarios, and a
  valid inquiry whose fields hold markup characters.
\<close>

definition exampleEnv :: env where
  "exampleEnv =
     \<lparr>RESEND_API_KEY = Some (str ''re_test_key''), TO_EMAIL = Some (str ''sales@example.com''),
      FROM_EMAIL = None, ALLOWED_ORIGINS = None\<rparr>"

definition emptyEnv :: env where
  "emptyEnv = \<lparr>RESEND_API_KEY = None, TO_EMAIL = None, FROM_EMAIL = None, ALLOWED_ORIGINS = None\<rparr>"

definition failingProvider :: runtime where
  "failingProvider =
     \<lparr>now = str ''2026-01-01T00:00:00.000Z'',
      fetch = (\<lambda>q. FetchResolved
                 \<lparr>ok = False, status = 403, statusText = str ''Forbidden'',
                  bodyText = str ''{\"message\":\"API key is invalid\"}'',
                  bodyJson = Inr (JObject [(str ''message'', JString (str ''API key is invalid''))])\<rparr>),
      destructureMessage = (\<lambda>v. str ''Cannot destructure property''),
      readIdMessage = (\<lambda>v. str ''Cannot read properties''),
      convertMessage = (\<lambda>v. str ''Cannot convert object to primitive value'')\<rparr>"

definition workingProvider :: runtime where
  "workingProvider =
     \<lparr>now = str ''2026-01-01T00:00:00.000Z'',
      fetch = (\<lambda>q. FetchResolved
                 \<lparr>ok = True, status = 200, statusText = str ''OK'',
                  bodyText = str ''{\"id\":\"49a3999c\"}'',
                  bodyJson = Inr (JObject [(str ''id'', JString (str ''49a3999c''))])\<rparr>),
      destructureMessage = (\<lambda>v. str ''Cannot destructure property''),
      readIdMessage = (\<lambda>v. str ''Cannot read properties''),
      convertMessage = (\<lambda>v. str ''Cannot convert object to primitive value'')\<rparr>"

definition inquiry :: "string \<Rightarrow> string \<Rightarrow> string \<Rightarrow> string \<Rightarrow> string list \<Rightarrow> string \<Rightarrow> jsval" where
  "inquiry name company email country products message =
     JObject [(str ''name'', JString (str name)), (str ''company'', JString (str company)),
              (str ''email'', JString (str email)), (str ''country'', JString (str country)),
              (str ''products'', JArray (map (\<lambda>p. JString (str p)) products)),
              (str ''message'', JString (str message))]"

definition exampleRequest :: "string \<Rightarrow> jsval \<Rightarrow> request" where
  "exampleRequest m b = \<lparr>reqMethod = str m, reqOrigin = None, reqBody = b\<rparr>"

definition scenarioA :: jsval where
  "scenarioA = inquiry ''Jane Doe'' ''Acme Corp'' ''jane@acme.com'' ''USA'' [''CBB60'']
                 ''Please send a quote for 50 units.''"

definition scenarioB :: jsval where
  "scenarioB = inquiry ''Jane Doe'' ''Acme Corp'' ''not-an-email'' ''USA'' [''CBB60'']
                 ''Please send a quote for 50 units.''"

definition markup :: jsval where
  "markup = inquiry ''Tom & Co'' ''A/B'' ''tom@ab.com'' ''USA'' [''CBB60'']
                 ''Need <b>50</b> units''"

section \<open>Strings\<close>

lemma str_Nil: "str [] = []"
  by (simp add: str_def)

lemma str_Cons: "str (c # cs) = of_nat (of_char c) # str cs"
  by (simp add: str_def)

lemmas str_simps = str_Nil str_Cons

lemma unat_ascii: "unat (of_nat (of_char c) :: 16 word) = of_char c"
proof -
  have "(of_char c :: nat) < 256" by simp
  also have "(256::nat) < 2 ^ 16" by simp
  finally show ?thesis by (simp add: unsigned_of_nat take_bit_nat_eq_self)
qed

lemma ascii_inj: "inj (\<lambda>c. of_nat (of_char c) :: 16 word)"
proof (rule injI)
  fix a b :: char
  assume "(of_nat (of_char a) :: 16 word) = of_nat (of_char b)"
  then have "unat (of_nat (of_char a) :: 16 word) = unat (of_nat (of_char b) :: 16 word)"
    by simp
  then have "(of_char a :: nat) = of_char b" by (simp only: unat_ascii)
  then show "a = b" by simp
qed

lemma str_eq_Nil: "str s = [] \<longleftrightarrow> s = []"
  by (simp add: str_def)

lemma str_append: "str (a @ b) = str a @ str b"
  by (simp add: str_def)

lemma str_inject: "str a = str b \<longleftrightarrow> a = b"
  unfolding str_def by (rule inj_map_eq_map[OF ascii_inj])

lemma replaceAll_Nil: "replaceAll c r [] = []"
  by (simp add: replaceAll_def)

lemma replaceAll_Cons: "replaceAll c r (x # xs) = (if x = c then r else [x]) @ replaceAll c r xs"
  by (simp add: replaceAll_def)

lemma replaceAll_append: "replaceAll c r (a @ b) = replaceAll c r a @ replaceAll c r b"
  by (simp add: replaceAll_def)

section \<open>Sanitization\<close>

text \<open>The six passes in sequence amount to one pass that replaces each character.\<close>

lemma sanitize_concat: "sanitizeHtml (JString s) = concat (map esc s)"
proof (induction s)
  case Nil
  show ?case by (simp add: sanitizeHtml_def replaceAll_Nil)
next
  case (Cons c s)
  then show ?case
    by (simp add: sanitizeHtml_def replaceAll_Cons replaceAll_append replaceAll_Nil esc_def str_simps)
qed

lemma escaped_esc_append: "escaped t \<Longrightarrow> escaped (esc c @ t)"
  by (simp add: esc_def str_simps specials_def entityTails_def startsWith_def)

lemma escaped_sanitize: "escaped (sanitizeHtml (JString s))"
  unfolding sanitize_concat by (induction s) (simp_all add: escaped_esc_append)

lemma esc_plain: "c \<notin> specials \<Longrightarrow> esc c = [c]"
  by (simp add: esc_def str_simps specials_def)

lemma sanitize_plain: "set s \<inter> specials = {} \<Longrightarrow> sanitizeHtml (JString s) = s"
  unfolding sanitize_concat by (induction s) (simp_all add: esc_plain)

lemma length_esc: "length (esc c) \<ge> 1"
  by (simp add: esc_def str_simps)

lemma length_esc_amp: "length (esc 0x26) = 5"
  by (simp add: esc_def str_simps)

lemma length_sanitize_ge: "length s \<le> length (concat (map esc s))"
proof (induction s)
  case Nil
  show ?case by simp
next
  case (Cons c s)
  then show ?case using length_esc[of c] by simp
qed

lemma length_sanitize_gt: "0x26 \<in> set s \<Longrightarrow> length s < length (concat (map esc s))"
proof (induction s)
  case Nil
  then show ?case by simp
next
  case (Cons c s)
  show ?case
  proof (cases "c = 0x26")
    case True
    then show ?thesis using length_sanitize_ge[of s] length_esc_amp by simp
  next
    case False
    then show ?thesis using Cons length_esc[of c] by simp
  qed
qed

lemma amp_in_esc: "c \<in> specials \<Longrightarrow> 0x26 \<in> set (esc c)"
  by (auto simp: esc_def str_simps specials_def)

lemma amp_in_sanitize: "set s \<inter> specials \<noteq> {} \<Longrightarrow> 0x26 \<in> set (concat (map esc s))"
  using amp_in_esc by fastforce

lemma esc_only_amp: "set (esc c) \<inter> {0x3C, 0x3E, 0x22, 0x27, 0x2F} = {}"
  by (simp add: esc_def str_simps)

lemma replace_amp_only:
  "set t \<inter> {0x3C, 0x3E, 0x22, 0x27, 0x2F} = {} \<Longrightarrow>
   concat (map esc t) = replaceAll 0x26 (str ''&amp;'') t"
  by (induction t) (auto simp: replaceAll_Nil replaceAll_Cons esc_def str_simps)

text \<open>
  C8, as stated: \<open>sanitizeHtml(sanitizeHtml(s)) = sanitizeHtml(s)\<close> for every string
  \<open>s\<close>. It fails at \<open>s = "&"\<close>: the first application gives \<open>&amp;\<close>, the second
  \<open>&amp;amp;\<close>.
\<close>

theorem sanitizeHtml_not_idempotent:
  "sanitizeHtml (JString (sanitizeHtml (JString (str ''&'')))) \<noteq> sanitizeHtml (JString (str ''&''))"
  by (simp add: sanitize_concat esc_def str_simps)

text \<open>
  C8, amended: a second application of \<open>sanitizeHtml\<close> leaves the result of the first
  unchanged exactly when the string holds none of the six characters \<open>& < > " ' /\<close>;
  for every string the second application changes nothing but the ampersands of the
  first result (none of \<open>< > " ' /\<close> is left to escape), each of which becomes
  \<open>&amp;\<close>.
\<close>

theorem sanitizeHtml_twice:
  "(sanitizeHtml (JString (sanitizeHtml (JString s))) = sanitizeHtml (JString s)
      \<longleftrightarrow> set s \<inter> specials = {}) \<and>
   sanitizeHtml (JString (sanitizeHtml (JString s))) =
      replaceAll 0x26 (str ''&amp;'') (sanitizeHtml (JString s))"
proof
  show "sanitizeHtml (JString (sanitizeHtml (JString s))) = sanitizeHtml (JString s)
      \<longleftrightarrow> set s \<inter> specials = {}"
  proof
    assume eq: "sanitizeHtml (JString (sanitizeHtml (JString s))) = sanitizeHtml (JString s)"
    show "set s \<inter> specials = {}"
    proof (rule ccontr)
      assume "set s \<inter> specials \<noteq> {}"
      then have "0x26 \<in> set (concat (map esc s))" by (rule amp_in_sanitize)
      then have "length (concat (map esc s)) < length (concat (map esc (concat (map esc s))))"
        by (rule length_sanitize_gt)
      with eq show False by (simp add: sanitize_concat)
    qed
  next
    assume "set s \<inter> specials = {}"
    then show "sanitizeHtml (JString (sanitizeHtml (JString s))) = sanitizeHtml (JString s)"
      by (simp add: sanitize_plain)
  qed
next
  have "set (concat (map esc s)) \<inter> {0x3C, 0x3E, 0x22, 0x27, 0x2F} = {}"
    using esc_only_amp by (induction s) (auto simp: Int_Un_distrib2)
  then show "sanitizeHtml (JString (sanitizeHtml (JString s))) =
      replaceAll 0x26 (str ''&amp;'') (sanitizeHtml (JString s))"
    unfolding sanitize_concat by (rule replace_amp_only)
qed

section \<open>The validators\<close>

lemma text_validator_cases:
  "validateName v = Some r \<Longrightarrow> \<exists>s. r = sanitizeHtml (JString s)"
  "validateCompany v = Some r \<Longrightarrow> \<exists>s. r = sanitizeHtml (JString s)"
  "validateEmail v = Some r \<Longrightarrow> \<exists>s. r = sanitizeHtml (JString s)"
  "validateCountry v = Some r \<Longrightarrow> \<exists>s. r = sanitizeHtml (JString s)"
  "validateMessage v = Some r \<Longrightarrow> \<exists>s. r = sanitizeHtml (JString s)"
  by (auto simp: validateName_def validateCompany_def validateEmail_def validateCountry_def
      validateMessage_def Let_def split: if_splits jsval.splits)

lemma products_cases:
  "validateProducts v = Some rs \<Longrightarrow> \<forall>r\<in>set rs. \<exists>p. r = sanitizeHtml p \<and> p \<in> set validProducts"
  by (auto simp: validateProducts_def Let_def split: if_splits jsval.splits)

lemma escaped_whitelisted: "p \<in> set validProducts \<Longrightarrow> escaped (sanitizeHtml p)"
  by (auto simp: validProducts_def escaped_sanitize)

text \<open>
  C1: every value that one of the six validators accepts is HTML-escaped: the returned
  string (for products, each returned string) holds none of \<open>< > " ' /\<close>, and every
  \<open>&\<close> in it starts one of the entities \<open>&amp; &lt; &gt; &quot; &#x27; &#x2F;\<close>.
\<close>

theorem validated_values_are_escaped:
  "(validateName v = Some r \<longrightarrow> escaped r) \<and>
   (validateCompany v = Some r \<longrightarrow> escaped r) \<and>
   (validateEmail v = Some r \<longrightarrow> escaped r) \<and>
   (validateCountry v = Some r \<longrightarrow> escaped r) \<and>
   (validateMessage v = Some r \<longrightarrow> escaped r) \<and>
   (validateProducts v = Some rs \<longrightarrow> list_all escaped rs)"
proof -
  have "list_all escaped rs" if "validateProducts v = Some rs"
    using products_cases[OF that] escaped_whitelisted by (auto simp: list_all_iff)
  then show ?thesis
    using text_validator_cases[of v r] escaped_sanitize by blast
qed

subsection \<open>The address pattern\<close>

lemma regexTest_OneOrMore:
  "regexTest ((p, OneOrMore) # r) s \<longleftrightarrow>
     (\<exists>a b. s = a @ b \<and> a \<noteq> [] \<and> list_all p a \<and> regexTest r b)"
proof (induction s)
  case Nil
  show ?case by simp
next
  case (Cons c cs)
  show ?case
  proof
    assume "regexTest ((p, OneOrMore) # r) (c # cs)"
    then have pc: "p c" and alt: "regexTest ((p, OneOrMore) # r) cs \<or> regexTest r cs"
      by simp_all
    from alt show "\<exists>a b. c # cs = a @ b \<and> a \<noteq> [] \<and> list_all p a \<and> regexTest r b"
    proof
      assume "regexTest ((p, OneOrMore) # r) cs"
      then obtain a b where "cs = a @ b" "list_all p a" "regexTest r b"
        using Cons.IH by blast
      with pc have "c # cs = (c # a) @ b \<and> c # a \<noteq> [] \<and> list_all p (c # a) \<and> regexTest r b"
        by simp
      then show ?thesis by blast
    next
      assume "regexTest r cs"
      with pc have "c # cs = [c] @ cs \<and> [c] \<noteq> [] \<and> list_all p [c] \<and> regexTest r cs"
        by simp
      then show ?thesis by blast
    qed
  next
    assume "\<exists>a b. c # cs = a @ b \<and> a \<noteq> [] \<and> list_all p a \<and> regexTest r b"
    then obtain a b where ab: "c # cs = a @ b" "a \<noteq> []" "list_all p a" "regexTest r b"
      by blast
    then obtain a' where a: "a = c # a'" by (cases a) auto
    with ab have pc: "p c" and cs: "cs = a' @ b" and pa: "list_all p a'" by simp_all
    show "regexTest ((p, OneOrMore) # r) (c # cs)"
    proof (cases "a' = []")
      case True
      with cs ab pc show ?thesis by simp
    next
      case False
      with cs pa ab have "regexTest ((p, OneOrMore) # r) cs" using Cons.IH by blast
      with pc show ?thesis by simp
    qed
  qed
qed

lemma regexTest_Once:
  "regexTest ((p, Once) # r) s \<longleftrightarrow> (\<exists>c b. s = c # b \<and> p c \<and> regexTest r b)"
  by (cases s) auto

lemma isValidEmail_shape:
  "isValidEmail t \<longleftrightarrow>
     (\<exists>l d1 d2. t = l @ [0x40] @ d1 @ [0x2E] @ d2 \<and> l \<noteq> [] \<and> d1 \<noteq> [] \<and> d2 \<noteq> [] \<and>
        list_all notSpaceOrAt (l @ d1 @ d2))"
proof
  assume "isValidEmail t"
  then obtain l r1 where 1: "t = l @ r1" "l \<noteq> []" "list_all notSpaceOrAt l"
    and r1: "regexTest [(\<lambda>c. c = 0x40, Once), (notSpaceOrAt, OneOrMore), (\<lambda>c. c = 0x2E, Once), (notSpaceOrAt, OneOrMore)] r1"
    unfolding isValidEmail_def emailRegex_def regexTest_OneOrMore by blast
  from r1 obtain r2 where 2: "r1 = 0x40 # r2"
    and r2: "regexTest [(notSpaceOrAt, OneOrMore), (\<lambda>c. c = 0x2E, Once), (notSpaceOrAt, OneOrMore)] r2"
    unfolding regexTest_Once by blast
  from r2 obtain d1 r3 where 3: "r2 = d1 @ r3" "d1 \<noteq> []" "list_all notSpaceOrAt d1"
    and r3: "regexTest [(\<lambda>c. c = 0x2E, Once), (notSpaceOrAt, OneOrMore)] r3"
    unfolding regexTest_OneOrMore by blast
  from r3 obtain r4 where 4: "r3 = 0x2E # r4"
    and r4: "regexTest [(notSpaceOrAt, OneOrMore)] r4"
    unfolding regexTest_Once by blast
  from r4 obtain d2 r5 where 5: "r4 = d2 @ r5" "d2 \<noteq> []" "list_all notSpaceOrAt d2" "regexTest [] r5"
    unfolding regexTest_OneOrMore by blast
  then have "r5 = []" by simp
  with 1 2 3 4 5 have "t = l @ [0x40] @ d1 @ [0x2E] @ d2 \<and> l \<noteq> [] \<and> d1 \<noteq> [] \<and> d2 \<noteq> [] \<and>
        list_all notSpaceOrAt (l @ d1 @ d2)" by simp
  then show "\<exists>l d1 d2. t = l @ [0x40] @ d1 @ [0x2E] @ d2 \<and> l \<noteq> [] \<and> d1 \<noteq> [] \<and> d2 \<noteq> [] \<and>
        list_all notSpaceOrAt (l @ d1 @ d2)" by blast
next
  assume "\<exists>l d1 d2. t = l @ [0x40] @ d1 @ [0x2E] @ d2 \<and> l \<noteq> [] \<and> d1 \<noteq> [] \<and> d2 \<noteq> [] \<and>
        list_all notSpaceOrAt (l @ d1 @ d2)"
  then obtain l d1 d2 where t: "t = l @ [0x40] @ d1 @ [0x2E] @ d2" and ne: "l \<noteq> []" "d1 \<noteq> []" "d2 \<noteq> []"
    and ok: "list_all notSpaceOrAt l" "list_all notSpaceOrAt d1" "list_all notSpaceOrAt d2"
    by auto
  have 5: "regexTest [(notSpaceOrAt, OneOrMore)] d2"
    unfolding regexTest_OneOrMore using ne ok by (intro exI[of _ d2] exI[of _ "[]"]) simp
  have 4: "regexTest [(\<lambda>c. c = 0x2E, Once), (notSpaceOrAt, OneOrMore)] ([0x2E] @ d2)"
    using 5 by simp
  have 3: "regexTest [(notSpaceOrAt, OneOrMore), (\<lambda>c. c = 0x2E, Once), (notSpaceOrAt, OneOrMore)] (d1 @ [0x2E] @ d2)"
    unfolding regexTest_OneOrMore[of notSpaceOrAt] using ne ok 4 by blast
  have 2: "regexTest [(\<lambda>c. c = 0x40, Once), (notSpaceOrAt, OneOrMore), (\<lambda>c. c = 0x2E, Once), (notSpaceOrAt, OneOrMore)] ([0x40] @ d1 @ [0x2E] @ d2)"
    using 3 by simp
  show "isValidEmail t"
    unfolding isValidEmail_def emailRegex_def regexTest_OneOrMore[of notSpaceOrAt] t using ne ok 2 by blast
qed

text \<open>
  C6, as stated: \<open>validateEmail\<close> accepts exactly the strings of length 5 to 255 whose
  trimmed form has exactly one \<open>@\<close>, a non-whitespace character on each side and a
  \<open>.\<close> after the \<open>@\<close>. It fails at \<open>"ab@c."\<close>: the pattern wants a character after
  the dot, so the validator returns \<open>null\<close>.
\<close>

theorem validateEmail_rejects_trailing_dot:
  "\<not> (validateEmail (JString (str ''ab@c.'')) \<noteq> None \<longleftrightarrow>
        5 \<le> length (str ''ab@c.'') \<and> length (str ''ab@c.'') \<le> 255 \<and>
        claimedEmailShape (trim (str ''ab@c.'')))"
  by (simp add: validateEmail_def isValidLength_def trim_def isWhiteSpace_def isValidEmail_def
      emailRegex_def notSpaceOrAt_def claimedEmailShape_def str_simps)

text \<open>
  C6, amended: \<open>validateEmail\<close> accepts a value exactly when it is a string of length 5
  to 255 whose trimmed form is \<open>local@first.rest\<close> with \<open>local\<close>, \<open>first\<close> and
  \<open>rest\<close> non-empty and free of whitespace and of \<open>@\<close> (so there is exactly one \<open>@\<close>,
  no whitespace anywhere, and the part after the \<open>@\<close> has a dot that is neither its
  first nor its last character); it then returns the trimmed, escaped value, and it
  returns \<open>null\<close> otherwise.
\<close>

theorem validateEmail_accepts_iff:
  "validateEmail v = Some r \<longleftrightarrow>
     (\<exists>s l d1 d2. v = JString s \<and> 5 \<le> length s \<and> length s \<le> 255 \<and>
        trim s = l @ [0x40] @ d1 @ [0x2E] @ d2 \<and> l \<noteq> [] \<and> d1 \<noteq> [] \<and> d2 \<noteq> [] \<and>
        list_all notSpaceOrAt (l @ d1 @ d2) \<and> r = sanitizeHtml (JString (trim s)))"
proof (cases v)
  case (JString s)
  show ?thesis
    unfolding JString validateEmail_def isValidLength_def Let_def isValidEmail_shape
    by (auto simp del: list_all_append append_eq_append_conv2)
qed (simp_all add: validateEmail_def isValidLength_def)

subsection \<open>Products\<close>

lemma filtered_surviving:
  "map sanitizeHtml (filter (\<lambda>p. p \<in> set validProducts) ps) = surviving ps"
proof (induction ps rule: surviving.induct)
  case (2 s ps)
  then show ?case by (auto simp: validProducts_def sanitize_concat esc_def str_simps)
qed (simp_all add: validProducts_def)

text \<open>
  C7: \<open>validateProducts\<close> rejects whatever is not a non-empty array; of an array it
  keeps the entries that are one of the two codes \<open>CBB60\<close>, \<open>CBB61\<close> and drops the
  others without an error; when none is left it rejects the field, with the very result
  it gives for the empty array; otherwise it returns the entries kept.
\<close>

theorem validateProducts_whitelist:
  "validateProducts v =
     (case v of JArray ps \<Rightarrow> if surviving ps = [] then None else Some (surviving ps)
      | _ \<Rightarrow> None) \<and>
   validateProducts (JArray ps) =
     (if surviving ps = [] then validateProducts (JArray []) else Some (surviving ps))"
proof -
  have *: "validateProducts (JArray qs) = (if surviving qs = [] then None else Some (surviving qs))"
    for qs
    unfolding validateProducts_def filtered_surviving by (cases qs) (simp_all add: Let_def)
  show ?thesis
    using * by (cases v) (simp_all add: validateProducts_def)
qed

subsection \<open>Length checks and trimming\<close>

lemma trim_unchanged:
  "s \<noteq> [] \<Longrightarrow> \<not> isWhiteSpace (hd s) \<Longrightarrow> \<not> isWhiteSpace (last s) \<Longrightarrow> trim s = s"
proof -
  assume ne: "s \<noteq> []" and h: "\<not> isWhiteSpace (hd s)" and l: "\<not> isWhiteSpace (last s)"
  from ne h have "dropWhile isWhiteSpace s = s" by (cases s) simp_all
  moreover from ne l have "dropWhile isWhiteSpace (rev s) = rev s"
    by (cases "rev s") (simp_all add: last_rev[symmetric] hd_rev)
  ultimately show ?thesis by (simp add: trim_def)
qed

lemma letter_a: "\<not> isWhiteSpace 0x61" by (simp add: isWhiteSpace_def)
lemma space_ws: "isWhiteSpace 0x20" by (simp add: isWhiteSpace_def)

lemma trim_letters: "0 < n \<Longrightarrow> trim (replicate n 0x61) = replicate n 0x61"
  by (rule trim_unchanged) (simp_all add: letter_a hd_replicate last_replicate)

lemma trim_space_letters: "0 < n \<Longrightarrow> trim (0x20 # replicate n 0x61) = replicate n 0x61"
proof -
  assume n: "0 < n"
  have "trim (0x20 # replicate n 0x61) = trim (replicate n 0x61)"
    using n by (cases n) (simp_all add: trim_def space_ws letter_a)
  then show ?thesis using n by (simp add: trim_letters)
qed

text \<open>
  C2, as stated: the length check is applied to the trimmed value. It fails for the
  message \<open>"abcdefghi "\<close>, whose trimmed length 9 is one below the minimum and which is
  accepted, and for a space followed by 5000 letters, whose trimmed length is the
  maximum 5000 and which is rejected.
\<close>

theorem length_check_ignores_trimming:
  "\<not> (length (trim (str ''abcdefghi '')) + 1 = 10 \<longrightarrow>
        validateMessage (JString (str ''abcdefghi '')) = None) \<and>
   \<not> (length (trim (0x20 # replicate 5000 0x61)) = 5000 \<longrightarrow>
        validateMessage (JString (0x20 # replicate 5000 0x61)) \<noteq> None)"
proof
  show "\<not> (length (trim (str ''abcdefghi '')) + 1 = 10 \<longrightarrow>
        validateMessage (JString (str ''abcdefghi '')) = None)"
    by (simp add: validateMessage_def isValidLength_def trim_def isWhiteSpace_def str_simps)
  show "\<not> (length (trim (0x20 # replicate 5000 0x61)) = 5000 \<longrightarrow>
        validateMessage (JString (0x20 # replicate 5000 0x61)) \<noteq> None)"
    by (simp add: trim_space_letters validateMessage_def isValidLength_def)
qed

text \<open>
  C2, amended: for every text field the length check is applied to the value as
  received, before trimming, inclusive on both bounds; trimming follows the length check
  and precedes escaping. So a value whose length is the minimum or the maximum of its
  field passes the length check, and one whose length is one below the minimum or one
  above the maximum fails it (for message, lengths 10 and 5000 pass; 9 and 5001 fail).
\<close>

theorem length_check_on_raw_value:
  "isValidLength (JString s) lo hi = (lo \<le> length s \<and> length s \<le> hi) \<and>
   validateName (JString s) =
     (if 1 \<le> length s \<and> length s \<le> 100 then Some (sanitizeHtml (JString (trim s))) else None) \<and>
   validateCompany (JString s) =
     (if 1 \<le> length s \<and> length s \<le> 200 then Some (sanitizeHtml (JString (trim s))) else None) \<and>
   validateEmail (JString s) =
     (if 5 \<le> length s \<and> length s \<le> 255 \<and> isValidEmail (trim s)
      then Some (sanitizeHtml (JString (trim s))) else None) \<and>
   validateCountry (JString s) =
     (if 1 \<le> length s \<and> length s \<le> 100 then Some (sanitizeHtml (JString (trim s))) else None) \<and>
   validateMessage (JString s) =
     (if 10 \<le> length s \<and> length s \<le> 5000 then Some (sanitizeHtml (JString (trim s))) else None)"
  by (simp add: isValidLength_def validateName_def validateCompany_def validateEmail_def
      validateCountry_def validateMessage_def)


theorem length_check_on_raw_value_witness:
  "validateMessage (JString (replicate 10 0x61)) \<noteq> None \<and>
   validateMessage (JString (replicate 5000 0x61)) \<noteq> None \<and>
   validateMessage (JString (replicate 9 0x61)) = None \<and>
   validateMessage (JString (replicate 5001 0x61)) = None \<and>
   validateName (JString (replicate 1 0x61)) \<noteq> None \<and>
   validateName (JString (replicate 100 0x61)) \<noteq> None \<and>
   validateName (JString (replicate 0 0x61)) = None \<and>
   validateName (JString (replicate 101 0x61)) = None"
  using length_check_on_raw_value[of "replicate 10 0x61"] length_check_on_raw_value[of "replicate 5000 0x61"]
    length_check_on_raw_value[of "replicate 9 0x61"] length_check_on_raw_value[of "replicate 5001 0x61"]
    length_check_on_raw_value[of "replicate 1 0x61"] length_check_on_raw_value[of "replicate 100 0x61"]
    length_check_on_raw_value[of "replicate 0 0x61"] length_check_on_raw_value[of "replicate 101 0x61"]
  by (simp del: replicate_0 replicate.simps)


subsection \<open>Examples\<close>

lemma validateName_example: "validateName (JString (str '' <b>Tom & \"Co\"</b> '')) = Some (str ''&lt;b&gt;Tom &amp; &quot;Co&quot;&lt;&#x2F;b&gt;'')"
  by (simp add: validateName_def isValidLength_def trim_def isWhiteSpace_def sanitize_concat esc_def str_simps)

lemma validateCompany_example: "validateCompany (JString (str ''A/B'')) = Some (str ''A&#x2F;B'')"
  by (simp add: validateCompany_def isValidLength_def trim_def isWhiteSpace_def sanitize_concat esc_def str_simps)

lemma validateEmail_example: "validateEmail (JString (str '' o'n&l@a.de '')) = Some (str ''o&#x27;n&amp;l@a.de'')"
proof -
  have "isValidEmail (str ''o'n&l@a.de'')"
    unfolding isValidEmail_shape
    by (rule exI[of _ "str ''o'n&l''"], rule exI[of _ "str ''a''"], rule exI[of _ "str ''de''"])
      (simp add: notSpaceOrAt_def isWhiteSpace_def str_simps)
  then show ?thesis
    by (simp add: validateEmail_def isValidLength_def trim_def isWhiteSpace_def sanitize_concat esc_def str_simps)
qed

lemma validateCountry_example: "validateCountry (JString (str ''<USA>'')) = Some (str ''&lt;USA&gt;'')"
  by (simp add: validateCountry_def isValidLength_def trim_def isWhiteSpace_def sanitize_concat esc_def str_simps)

lemma validateMessage_example: "validateMessage (JString (str ''a < b && c > d'')) = Some (str ''a &lt; b &amp;&amp; c &gt; d'')"
  by (simp add: validateMessage_def isValidLength_def trim_def isWhiteSpace_def sanitize_concat esc_def str_simps)

lemma validateProducts_example: "validateProducts (JArray [JString (str ''CBB61''), JString (str ''X''), JNull, JString (str ''CBB60'')]) = Some [str ''CBB61'', str ''CBB60'']"
  by (simp add: validateProducts_def validProducts_def sanitize_concat esc_def str_simps)

theorem validated_values_are_escaped_witness:
  "validateName (JString (str '' <b>Tom & \"Co\"</b> '')) = Some (str ''&lt;b&gt;Tom &amp; &quot;Co&quot;&lt;&#x2F;b&gt;'') \<and>
   escaped (str ''&lt;b&gt;Tom &amp; &quot;Co&quot;&lt;&#x2F;b&gt;'') \<and>
   validateCompany (JString (str ''A/B'')) = Some (str ''A&#x2F;B'') \<and>
   escaped (str ''A&#x2F;B'') \<and>
   validateEmail (JString (str '' o'n&l@a.de '')) = Some (str ''o&#x27;n&amp;l@a.de'') \<and>
   escaped (str ''o&#x27;n&amp;l@a.de'') \<and>
   validateCountry (JString (str ''<USA>'')) = Some (str ''&lt;USA&gt;'') \<and>
   escaped (str ''&lt;USA&gt;'') \<and>
   validateMessage (JString (str ''a < b && c > d'')) = Some (str ''a &lt; b &amp;&amp; c &gt; d'') \<and>
   escaped (str ''a &lt; b &amp;&amp; c &gt; d'') \<and>
   validateProducts (JArray [JString (str ''CBB61''), JString (str ''X''), JNull, JString (str ''CBB60'')]) = Some [str ''CBB61'', str ''CBB60''] \<and>
   list_all escaped [str ''CBB61'', str ''CBB60'']"
proof -
  have 1: "escaped (str ''&lt;b&gt;Tom &amp; &quot;Co&quot;&lt;&#x2F;b&gt;'')"
    using validated_values_are_escaped[of "JString (str '' <b>Tom & \"Co\"</b> '')"
        "str ''&lt;b&gt;Tom &amp; &quot;Co&quot;&lt;&#x2F;b&gt;''"] validateName_example
    by blast
  have 2: "escaped (str ''A&#x2F;B'')"
    using validated_values_are_escaped[of "JString (str ''A/B'')" "str ''A&#x2F;B''"] validateCompany_example
    by blast
  have 3: "escaped (str ''o&#x27;n&amp;l@a.de'')"
    using validated_values_are_escaped[of "JString (str '' o'n&l@a.de '')" "str ''o&#x27;n&amp;l@a.de''"]
      validateEmail_example
    by blast
  have 4: "escaped (str ''&lt;USA&gt;'')"
    using validated_values_are_escaped[of "JString (str ''<USA>'')" "str ''&lt;USA&gt;''"] validateCountry_example
    by blast
  have 5: "escaped (str ''a &lt; b &amp;&amp; c &gt; d'')"
    using validated_values_are_escaped[of "JString (str ''a < b && c > d'')"
        "str ''a &lt; b &amp;&amp; c &gt; d''"] validateMessage_example
    by blast
  have 6: "list_all escaped [str ''CBB61'', str ''CBB60'']"
    using validated_values_are_escaped[of
        "JArray [JString (str ''CBB61''), JString (str ''X''), JNull, JString (str ''CBB60'')]" _
        "[str ''CBB61'', str ''CBB60'']"] validateProducts_example
    by blast
  show ?thesis
    using 1 2 3 4 5 6 validateName_example validateCompany_example validateEmail_example validateCountry_example validateMessage_example validateProducts_example
    by (intro conjI)
qed

section \<open>The handler\<close>

subsection \<open>Configuration gate, preflight and method gate\<close>

lemma methods_differ: "str ''OPTIONS'' \<noteq> str ''POST''"
  by (simp add: str_inject)

lemma handler_no_key:
  "falsy (RESEND_API_KEY e) \<Longrightarrow>
     handler e rt req =
       (\<lparr>statusCode = 500, headers = [], json = Some (failure (str ''Server configuration error''))\<rparr>,
        [ConsoleError (str ''RESEND_API_KEY environment variable is not set'')])"
  by (cases "RESEND_API_KEY e") (simp_all add: handler_def falsy_def Let_def)

lemma handler_no_recipient:
  "\<not> falsy (RESEND_API_KEY e) \<Longrightarrow> falsy (TO_EMAIL e) \<Longrightarrow>
     handler e rt req =
       (\<lparr>statusCode = 500, headers = [], json = Some (failure (str ''Server configuration error''))\<rparr>,
        [ConsoleError (str ''TO_EMAIL environment variable is not set'')])"
  by (cases "RESEND_API_KEY e"; cases "TO_EMAIL e") (simp_all add: handler_def falsy_def Let_def)

lemma handler_unconfigured:
  "\<not> configured e \<Longrightarrow>
     fst (handler e rt req) =
       \<lparr>statusCode = 500, headers = [], json = Some (failure (str ''Server configuration error''))\<rparr> \<and>
     \<not> list_ex isFetch (snd (handler e rt req)) \<and>
     handler e rt (req\<lparr>reqBody := b\<rparr>) = handler e rt req"
proof (cases "falsy (RESEND_API_KEY e)")
  case True
  show ?thesis unfolding handler_no_key[OF True] by simp
next
  case False
  assume "\<not> configured e"
  with False have t: "falsy (TO_EMAIL e)" by (simp add: configured_def)
  show ?thesis unfolding handler_no_recipient[OF False t] by simp
qed

lemma configuredE:
  assumes "configured e"
  obtains apiKey toEmail where "RESEND_API_KEY e = Some apiKey" "apiKey \<noteq> []"
    "TO_EMAIL e = Some toEmail" "toEmail \<noteq> []"
  using assms by (cases "RESEND_API_KEY e"; cases "TO_EMAIL e") (auto simp: configured_def falsy_def)

lemma handler_options:
  assumes "configured e" "reqMethod req = str ''OPTIONS''"
  shows "handler e rt req =
     (\<lparr>statusCode = 200, headers = corsHeaders (reqOrigin req) (getAllowedOrigins e),
       json = None\<rparr>, [])"
proof -
  from assms(1) obtain apiKey toEmail where "RESEND_API_KEY e = Some apiKey" "apiKey \<noteq> []"
    "TO_EMAIL e = Some toEmail" "toEmail \<noteq> []" by (rule configuredE)
  with assms(2) show ?thesis by (simp add: handler_def Let_def)
qed

lemma handler_other_method:
  assumes "configured e" "reqMethod req \<noteq> str ''OPTIONS''" "reqMethod req \<noteq> str ''POST''"
  shows "handler e rt req =
     (\<lparr>statusCode = 405, headers = corsHeaders (reqOrigin req) (getAllowedOrigins e),
       json = Some (JObject [(str ''error'', JString (str ''Method not allowed''))])\<rparr>, [])"
proof -
  from assms(1) obtain apiKey toEmail where "RESEND_API_KEY e = Some apiKey" "apiKey \<noteq> []"
    "TO_EMAIL e = Some toEmail" "toEmail \<noteq> []" by (rule configuredE)
  with assms(2,3) show ?thesis by (simp add: handler_def Let_def)
qed

lemma handler_post:
  assumes "RESEND_API_KEY e = Some apiKey" "apiKey \<noteq> []" "TO_EMAIL e = Some toEmail"
    "toEmail \<noteq> []" "reqMethod req = str ''POST''"
  shows "handler e rt req =
     (case tryBlock apiKey toEmail (sender e) rt (reqBody req) of
        (Return (code, obj), effects) \<Rightarrow>
          (\<lparr>statusCode = code, headers = corsHeaders (reqOrigin req) (getAllowedOrigins e),
            json = Some obj\<rparr>, effects)
      | (Throw msg, effects) \<Rightarrow>
          (\<lparr>statusCode = 500, headers = corsHeaders (reqOrigin req) (getAllowedOrigins e),
            json = Some (failure (str ''An error occurred while processing your request. Please try again later.''))\<rparr>,
           effects @ [ConsoleError (str ''Error processing inquiry:'')]))"
  unfolding handler_def Let_def sender_def using assms methods_differ by simp

lemma handler_post_returns:
  assumes "RESEND_API_KEY e = Some apiKey" "apiKey \<noteq> []" "TO_EMAIL e = Some toEmail"
    "toEmail \<noteq> []" "reqMethod req = str ''POST''"
    "tryBlock apiKey toEmail (sender e) rt (reqBody req) = (Return (code, obj), effects)"
  shows "handler e rt req =
     (\<lparr>statusCode = code, headers = corsHeaders (reqOrigin req) (getAllowedOrigins e),
       json = Some obj\<rparr>, effects)"
  unfolding handler_post[OF assms(1-5)] assms(6) by simp

lemma handler_post_throws:
  assumes "RESEND_API_KEY e = Some apiKey" "apiKey \<noteq> []" "TO_EMAIL e = Some toEmail"
    "toEmail \<noteq> []" "reqMethod req = str ''POST''"
    "tryBlock apiKey toEmail (sender e) rt (reqBody req) = (Throw msg, effects)"
  shows "handler e rt req =
     (\<lparr>statusCode = 500, headers = corsHeaders (reqOrigin req) (getAllowedOrigins e),
       json = Some (failure (str ''An error occurred while processing your request. Please try again later.''))\<rparr>,
      effects @ [ConsoleError (str ''Error processing inquiry:'')])"
  unfolding handler_post[OF assms(1-5)] assms(6) by simp

text \<open>
  C3, amended: for every request with method OPTIONS, when the mail configuration is
  present the handler responds with status 200 and an empty body; when either required
  variable is absent it responds with status 500 and the configuration-error body (the
  configuration gate comes first). In both cases it performs no outbound send, and its
  whole result is the same for every body: no field is validated.
\<close>

theorem preflight_after_configuration_gate:
  "reqMethod req = str ''OPTIONS'' \<Longrightarrow>
     (configured e \<longrightarrow>
        handler e rt req =
          (\<lparr>statusCode = 200, headers = corsHeaders (reqOrigin req) (getAllowedOrigins e),
            json = None\<rparr>, [])) \<and>
     (\<not> configured e \<longrightarrow>
        fst (handler e rt req) =
          \<lparr>statusCode = 500, headers = [],
           json = Some (failure (str ''Server configuration error''))\<rparr>) \<and>
     \<not> list_ex isFetch (snd (handler e rt req)) \<and>
     handler e rt (req\<lparr>reqBody := b\<rparr>) = handler e rt req"
proof (cases "configured e")
  case False
  then show ?thesis using handler_unconfigured[of e rt req b] by simp
next
  case True
  assume m: "reqMethod req = str ''OPTIONS''"
  then have m': "reqMethod (req\<lparr>reqBody := b\<rparr>) = str ''OPTIONS''" by simp
  show ?thesis
    unfolding handler_options[OF True m] handler_options[OF True m'] using True by simp
qed

text \<open>
  C4, amended: for every request whose method is neither POST nor OPTIONS, whatever
  its body, when the mail configuration is present the handler responds with status 405
  and the body \<open>{error: 'Method not allowed'}\<close>; when either required variable is
  absent it responds with status 500 and the configuration-error body. In both cases it
  performs no outbound send, and its whole result is the same for every body.
\<close>

theorem method_gate_after_configuration_gate:
  "reqMethod req \<noteq> str ''POST'' \<Longrightarrow> reqMethod req \<noteq> str ''OPTIONS'' \<Longrightarrow>
     (configured e \<longrightarrow>
        handler e rt req =
          (\<lparr>statusCode = 405, headers = corsHeaders (reqOrigin req) (getAllowedOrigins e),
            json = Some (JObject [(str ''error'', JString (str ''Method not allowed''))])\<rparr>, [])) \<and>
     (\<not> configured e \<longrightarrow>
        fst (handler e rt req) =
          \<lparr>statusCode = 500, headers = [],
           json = Some (failure (str ''Server configuration error''))\<rparr>) \<and>
     \<not> list_ex isFetch (snd (handler e rt req)) \<and>
     handler e rt (req\<lparr>reqBody := b\<rparr>) = handler e rt req"
proof (cases "configured e")
  case False
  then show ?thesis using handler_unconfigured[of e rt req b] by simp
next
  case True
  assume m: "reqMethod req \<noteq> str ''POST''" "reqMethod req \<noteq> str ''OPTIONS''"
  then have m': "reqMethod (req\<lparr>reqBody := b\<rparr>) \<noteq> str ''POST''"
    "reqMethod (req\<lparr>reqBody := b\<rparr>) \<noteq> str ''OPTIONS''" by simp_all
  show ?thesis
    unfolding handler_other_method[OF True m(2,1)] handler_other_method[OF True m'(2,1)]
    using True by simp
qed

subsection \<open>Validation failures\<close>

lemma firstFailure_exists: "list_ex fst (checks body) \<Longrightarrow> \<exists>m. firstFailure body = Some m"
proof -
  assume "list_ex fst (checks body)"
  then have "find fst (checks body) \<noteq> None" by (auto simp: find_None_iff list_ex_iff)
  then show ?thesis by (auto simp: firstFailure_def)
qed

lemma tryBlock_failure:
  assumes "body \<noteq> JUndefined" "body \<noteq> JNull" "firstFailure body = Some m"
  shows "tryBlock apiKey toEmail FROM rt body =
       (Return (400, failure m), [ConsoleLog (str ''Received form submission'')])"
  using assms unfolding tryBlock_def Let_def firstFailure_def checks_def
  by (simp split: if_splits)

lemma reject_non_strings:
  assumes "\<And>s. v \<noteq> JString s"
  shows "validateName v = None" "validateCompany v = None" "validateEmail v = None"
    "validateCountry v = None" "validateMessage v = None"
  using assms
  by (cases v; simp add: validateName_def validateCompany_def validateEmail_def
      validateCountry_def validateMessage_def isValidLength_def)+

lemma getProp_absent: "k \<notin> fst ` set kvs \<Longrightarrow> getProp (JObject kvs) k = JUndefined"
  by (simp add: getProp_def map_of_eq_None_iff[THEN iffD2])

text \<open>
  A POST request without a body, or with the body \<open>null\<close>, has nothing to destructure:
  the TypeError is caught and answered with the generic 500 response.
\<close>

lemma tryBlock_no_body:
  "body = JUndefined \<or> body = JNull \<Longrightarrow>
   tryBlock apiKey toEmail FROM rt body =
     (Throw (destructureMessage rt body), [ConsoleLog (str ''Received form submission'')])"
  by (auto simp: tryBlock_def Let_def)

lemma handler_no_body:
  assumes "configured e" "reqMethod req = str ''POST''" "reqBody req = JUndefined \<or> reqBody req = JNull"
  shows "handler e rt req =
     (\<lparr>statusCode = 500, headers = corsHeaders (reqOrigin req) (getAllowedOrigins e),
       json = Some (failure (str ''An error occurred while processing your request. Please try again later.''))\<rparr>,
      [ConsoleLog (str ''Received form submission''), ConsoleError (str ''Error processing inquiry:'')])"
proof -
  from assms(1) obtain apiKey toEmail where c: "RESEND_API_KEY e = Some apiKey" "apiKey \<noteq> []"
    "TO_EMAIL e = Some toEmail" "toEmail \<noteq> []" by (rule configuredE)
  from handler_post_throws[OF c assms(2) tryBlock_no_body[OF assms(3)]] show ?thesis by simp
qed

text \<open>
  C9, amended: with the mail configuration present, for every POST request whose body
  can be destructured (it is neither \<open>undefined\<close> nor \<open>null\<close>) and in which at least
  one field fails, the response has status 400 and carries the one message of the first
  failing field in the order name, company, email, country, products, message; the only
  effect is the first log line, so nothing is sent. A value that is not a string fails
  every text validator, a value that is not a non-empty array fails the products
  validator, and an absent field is read as \<open>undefined\<close>. A POST request whose body is
  \<open>undefined\<close> or \<open>null\<close> is answered with status 500 and the generic message, and
  nothing is sent either.
\<close>

theorem first_failing_field_is_reported:
  "(configured e \<and> reqMethod req = str ''POST'' \<and> reqBody req \<noteq> JUndefined \<and>
    reqBody req \<noteq> JNull \<and> list_ex fst (checks (reqBody req)) \<longrightarrow>
      (\<exists>m. firstFailure (reqBody req) = Some m \<and>
           handler e rt req =
             (\<lparr>statusCode = 400, headers = corsHeaders (reqOrigin req) (getAllowedOrigins e),
               json = Some (failure m)\<rparr>,
              [ConsoleLog (str ''Received form submission'')]))) \<and>
   ((\<forall>s. v \<noteq> JString s) \<longrightarrow>
      falsy (validateName v) \<and> falsy (validateCompany v) \<and> falsy (validateEmail v) \<and>
      falsy (validateCountry v) \<and> falsy (validateMessage v)) \<and>
   ((\<forall>ps. v \<noteq> JArray ps) \<or> v = JArray [] \<longrightarrow> validateProducts v = None) \<and>
   (k \<notin> fst ` set kvs \<longrightarrow> getProp (JObject kvs) k = JUndefined) \<and>
   (configured e \<and> reqMethod req = str ''POST'' \<and>
    (reqBody req = JUndefined \<or> reqBody req = JNull) \<longrightarrow>
      handler e rt req =
        (\<lparr>statusCode = 500, headers = corsHeaders (reqOrigin req) (getAllowedOrigins e),
          json = Some (failure (str ''An error occurred while processing your request. Please try again later.''))\<rparr>,
         [ConsoleLog (str ''Received form submission''),
          ConsoleError (str ''Error processing inquiry:'')]))"
proof (intro conjI impI)
  assume a: "configured e \<and> reqMethod req = str ''POST'' \<and> reqBody req \<noteq> JUndefined \<and>
    reqBody req \<noteq> JNull \<and> list_ex fst (checks (reqBody req))"
  then obtain m where m: "firstFailure (reqBody req) = Some m"
    using firstFailure_exists by blast
  from a obtain apiKey toEmail where c: "RESEND_API_KEY e = Some apiKey" "apiKey \<noteq> []"
    "TO_EMAIL e = Some toEmail" "toEmail \<noteq> []" using configuredE by blast
  from a have p: "reqMethod req = str ''POST''" by simp
  from a m have "tryBlock apiKey toEmail (sender e) rt (reqBody req) =
       (Return (400, failure m), [ConsoleLog (str ''Received form submission'')])"
    by (intro tryBlock_failure) simp_all
  from handler_post_returns[OF c p this] m
  show "\<exists>m. firstFailure (reqBody req) = Some m \<and>
           handler e rt req =
             (\<lparr>statusCode = 400, headers = corsHeaders (reqOrigin req) (getAllowedOrigins e),
               json = Some (failure m)\<rparr>,
              [ConsoleLog (str ''Received form submission'')])" by blast
next
  assume "\<forall>s. v \<noteq> JString s"
  then have n: "\<And>s. v \<noteq> JString s" by blast
  show "falsy (validateName v)" "falsy (validateCompany v)" "falsy (validateEmail v)"
    "falsy (validateCountry v)" "falsy (validateMessage v)"
    by (simp_all add: reject_non_strings[OF n] falsy_def)
next
  assume "(\<forall>ps. v \<noteq> JArray ps) \<or> v = JArray []"
  then show "validateProducts v = None"
    by (cases v) (auto simp: validateProducts_def)
next
  assume "k \<notin> fst ` set kvs"
  then show "getProp (JObject kvs) k = JUndefined" by (rule getProp_absent)
next
  assume "configured e \<and> reqMethod req = str ''POST'' \<and>
    (reqBody req = JUndefined \<or> reqBody req = JNull)"
  then show "handler e rt req =
        (\<lparr>statusCode = 500, headers = corsHeaders (reqOrigin req) (getAllowedOrigins e),
          json = Some (failure (str ''An error occurred while processing your request. Please try again later.''))\<rparr>,
         [ConsoleLog (str ''Received form submission''),
          ConsoleError (str ''Error processing inquiry:'')])"
    by (intro handler_no_body) simp_all
qed

subsection \<open>Failure of the mail provider\<close>

lemma dispatch_not_ok:
  assumes "\<And>q. \<exists>r. fetch rt q = FetchResolved r \<and> \<not> ok r"
  shows "\<exists>effects. dispatch apiKey toEmail FROM rt n c e k ps m = (Throw (str ''Failed to send email''), effects)"
proof -
  define q where "q = \<lparr>url = str ''https://api.resend.com/emails'',
             fetchMethod = str ''POST'',
             authorization = str ''Bearer '' @ apiKey,
             contentType = str ''application/json'',
             fetchBody = \<lparr>mail_from = (if includesStr FROM (str ''resend.dev'') then FROM
                       else str ''Motor Run Capacitor <'' @ FROM @ str ''>''),
             mail_to = [toEmail],
             mail_subject = str ''New Inquiry: '' @ n @ str '' from '' @ c,
             mail_html = emailHTML n c e k (joinStr (str '', '') ps) (replaceAll 0x0A (str ''<br>'') m) (now rt),
             mail_reply_to = JString e\<rparr>\<rparr>"
  from assms obtain r where r: "fetch rt q = FetchResolved r" "\<not> ok r" by blast
  show ?thesis
    unfolding dispatch_def Let_def q_def[symmetric] r using r(2) by simp
qed

lemma tryBlock_valid:
  assumes "\<not> list_ex fst (checks body)"
  shows "\<exists>n c e k ps m. tryBlock apiKey toEmail FROM rt body =
     (case dispatch apiKey toEmail FROM rt n c e k ps m of
        (result, effects) \<Rightarrow> (result, [ConsoleLog (str ''Received form submission'')] @ effects))"
proof -
  from assms have f: "\<not> falsy (validateName (getProp body (str ''name'')))"
    "\<not> falsy (validateCompany (getProp body (str ''company'')))"
    "\<not> falsy (validateEmail (getProp body (str ''email'')))"
    "\<not> falsy (validateCountry (getProp body (str ''country'')))"
    "validateProducts (getProp body (str ''products'')) \<noteq> None"
    "\<not> falsy (validateMessage (getProp body (str ''message'')))"
    by (simp_all add: checks_def)
  then obtain n c e k ps m where v: "validateName (getProp body (str ''name'')) = Some n"
    "validateCompany (getProp body (str ''company'')) = Some c"
    "validateEmail (getProp body (str ''email'')) = Some e"
    "validateCountry (getProp body (str ''country'')) = Some k"
    "validateProducts (getProp body (str ''products'')) = Some ps"
    "validateMessage (getProp body (str ''message'')) = Some m"
    by (auto simp: falsy_def split: option.splits)
  from f(1) have "body \<noteq> JUndefined" "body \<noteq> JNull"
    by (auto simp: getProp_def validateName_def isValidLength_def falsy_def)
  then have "tryBlock apiKey toEmail FROM rt body =
     (case dispatch apiKey toEmail FROM rt n c e k ps m of
        (result, effects) \<Rightarrow> (result, [ConsoleLog (str ''Received form submission'')] @ effects))"
    unfolding tryBlock_def Let_def using f v by simp
  then show ?thesis by blast
qed

text \<open>
  C5: when all six fields pass validation and the mail provider answers with a
  non-success status, the handler responds with status 500 and one fixed message; the
  response is the same whatever status, status text and body the provider gave.
\<close>

theorem upstream_failure_is_not_surfaced:
  "configured e \<Longrightarrow> reqMethod req = str ''POST'' \<Longrightarrow> \<not> list_ex fst (checks (reqBody req)) \<Longrightarrow>
   (\<And>q. \<exists>r. fetch rt q = FetchResolved r \<and> \<not> ok r) \<Longrightarrow>
     fst (handler e rt req) =
       \<lparr>statusCode = 500, headers = corsHeaders (reqOrigin req) (getAllowedOrigins e),
        json = Some (failure (str ''An error occurred while processing your request. Please try again later.''))\<rparr>"
proof -
  assume a: "configured e" and p: "reqMethod req = str ''POST''"
    and v: "\<not> list_ex fst (checks (reqBody req))"
    and f: "\<And>q. \<exists>r. fetch rt q = FetchResolved r \<and> \<not> ok r"
  from a obtain apiKey toEmail where c: "RESEND_API_KEY e = Some apiKey" "apiKey \<noteq> []"
    "TO_EMAIL e = Some toEmail" "toEmail \<noteq> []" using configuredE by blast
  from tryBlock_valid[OF v] obtain n co em k ps m where
    t: "tryBlock apiKey toEmail (sender e) rt (reqBody req) =
     (case dispatch apiKey toEmail (sender e) rt n co em k ps m of
        (result, effects) \<Rightarrow> (result, [ConsoleLog (str ''Received form submission'')] @ effects))"
    by blast
  from dispatch_not_ok[OF f] obtain effects where
    "dispatch apiKey toEmail (sender e) rt n co em k ps m = (Throw (str ''Failed to send email''), effects)"
    by blast
  with t have "tryBlock apiKey toEmail (sender e) rt (reqBody req) =
     (Throw (str ''Failed to send email''), [ConsoleLog (str ''Received form submission'')] @ effects)"
    by simp
  from handler_post_throws[OF c p this] show ?thesis by simp
qed

section \<open>Examples of the handler\<close>

lemma getProp_inquiry:
  "getProp (inquiry n c e k ps m) (str ''name'') = JString (str n)"
  "getProp (inquiry n c e k ps m) (str ''company'') = JString (str c)"
  "getProp (inquiry n c e k ps m) (str ''email'') = JString (str e)"
  "getProp (inquiry n c e k ps m) (str ''country'') = JString (str k)"
  "getProp (inquiry n c e k ps m) (str ''products'') = JArray (map (\<lambda>p. JString (str p)) ps)"
  "getProp (inquiry n c e k ps m) (str ''message'') = JString (str m)"
  by (simp_all add: getProp_def inquiry_def str_inject)

lemma validate_jane: "validateName (JString (str ''Jane Doe'')) = Some (str ''Jane Doe'')"
  by (simp add: validateName_def isValidLength_def trim_def isWhiteSpace_def sanitize_concat esc_def str_simps)
lemma validate_acme: "validateCompany (JString (str ''Acme Corp'')) = Some (str ''Acme Corp'')"
  by (simp add: validateCompany_def isValidLength_def trim_def isWhiteSpace_def sanitize_concat esc_def str_simps)
lemma validate_usa: "validateCountry (JString (str ''USA'')) = Some (str ''USA'')"
  by (simp add: validateCountry_def isValidLength_def trim_def isWhiteSpace_def sanitize_concat esc_def str_simps)
lemma validate_cbb60: "validateProducts (JArray [JString (str ''CBB60'')]) = Some [str ''CBB60'']"
  by (simp add: validateProducts_def validProducts_def sanitize_concat esc_def str_simps)
lemma validate_quote: "validateMessage (JString (str ''Please send a quote for 50 units.'')) = Some (str ''Please send a quote for 50 units.'')"
  by (simp add: validateMessage_def isValidLength_def trim_def isWhiteSpace_def sanitize_concat esc_def str_simps)
lemma validate_jane_email: "validateEmail (JString (str ''jane@acme.com'')) = Some (str ''jane@acme.com'')"
proof -
  have "isValidEmail (str ''jane@acme.com'')"
    unfolding isValidEmail_shape
    by (rule exI[of _ "str ''jane''"], rule exI[of _ "str ''acme''"], rule exI[of _ "str ''com''"])
      (simp add: notSpaceOrAt_def isWhiteSpace_def str_simps)
  then show ?thesis
    by (simp add: validateEmail_def isValidLength_def trim_def isWhiteSpace_def sanitize_concat esc_def str_simps)
qed
lemma isValidEmail_needs_at: "isValidEmail t \<Longrightarrow> 0x40 \<in> set t"
  by (auto simp: isValidEmail_shape)

lemma validate_not_an_email: "validateEmail (JString (str ''not-an-email'')) = None"
proof -
  have "\<not> isValidEmail (str ''not-an-email'')"
    using isValidEmail_needs_at[of "str ''not-an-email''"] by (auto simp: str_simps)
  then show ?thesis
    by (simp add: validateEmail_def isValidLength_def trim_def isWhiteSpace_def str_simps)
qed

lemma checks_scenarioA: "\<not> list_ex fst (checks scenarioA)"
  by (simp add: checks_def scenarioA_def getProp_inquiry validate_jane validate_acme validate_usa
      validate_cbb60 validate_quote validate_jane_email falsy_def str_eq_Nil)

lemma checks_scenarioB: "list_ex fst (checks scenarioB)"
  by (simp add: checks_def scenarioB_def getProp_inquiry validate_not_an_email falsy_def)

lemma firstFailure_scenarioB:
  "firstFailure scenarioB = Some (str ''Invalid email address. Please provide a valid email.'')"
  by (simp add: firstFailure_def checks_def scenarioB_def getProp_inquiry validate_jane validate_acme
      validate_not_an_email falsy_def str_eq_Nil)

lemma configured_example: "configured exampleEnv" "\<not> configured emptyEnv"
  by (simp_all add: configured_def exampleEnv_def emptyEnv_def falsy_def str_eq_Nil)

text \<open>
  C3, as stated: an OPTIONS request is answered 200 with an empty body under every
  configuration. With no mail configuration the answer is 500 with a body.
\<close>

theorem preflight_without_configuration:
  "\<not> (statusCode (fst (handler emptyEnv workingProvider (exampleRequest ''OPTIONS'' JNull))) = 200 \<and>
        json (fst (handler emptyEnv workingProvider (exampleRequest ''OPTIONS'' JNull))) = None)"
  by (simp add: handler_no_key emptyEnv_def falsy_def)

theorem preflight_after_configuration_gate_witness:
  "handler exampleEnv workingProvider (exampleRequest ''OPTIONS'' scenarioA) =
     (\<lparr>statusCode = 200, headers = corsHeaders None (getAllowedOrigins exampleEnv), json = None\<rparr>, []) \<and>
   fst (handler emptyEnv workingProvider (exampleRequest ''OPTIONS'' scenarioA)) =
     \<lparr>statusCode = 500, headers = [], json = Some (failure (str ''Server configuration error''))\<rparr> \<and>
   \<not> list_ex isFetch (snd (handler exampleEnv workingProvider (exampleRequest ''OPTIONS'' scenarioA))) \<and>
   handler exampleEnv workingProvider (exampleRequest ''OPTIONS'' JNull) =
     handler exampleEnv workingProvider (exampleRequest ''OPTIONS'' scenarioA)"
  using preflight_after_configuration_gate[of "exampleRequest ''OPTIONS'' scenarioA" exampleEnv workingProvider JNull]
    preflight_after_configuration_gate[of "exampleRequest ''OPTIONS'' scenarioA" emptyEnv workingProvider JNull]
    configured_example
  by (simp add: exampleRequest_def)

text \<open>
  C4, as stated: a request that is neither POST nor OPTIONS is answered 405 under every
  configuration. With no mail configuration a GET request is answered 500.
\<close>

theorem method_gate_without_configuration:
  "\<not> (statusCode (fst (handler emptyEnv workingProvider (exampleRequest ''GET'' JNull))) = 405 \<and>
        json (fst (handler emptyEnv workingProvider (exampleRequest ''GET'' JNull))) =
          Some (JObject [(str ''error'', JString (str ''Method not allowed''))]))"
  by (simp add: handler_no_key emptyEnv_def falsy_def)

theorem method_gate_after_configuration_gate_witness:
  "handler exampleEnv workingProvider (exampleRequest ''GET'' scenarioA) =
     (\<lparr>statusCode = 405, headers = corsHeaders None (getAllowedOrigins exampleEnv),
       json = Some (JObject [(str ''error'', JString (str ''Method not allowed''))])\<rparr>, []) \<and>
   fst (handler emptyEnv workingProvider (exampleRequest ''GET'' scenarioA)) =
     \<lparr>statusCode = 500, headers = [], json = Some (failure (str ''Server configuration error''))\<rparr> \<and>
   \<not> list_ex isFetch (snd (handler exampleEnv workingProvider (exampleRequest ''GET'' scenarioA))) \<and>
   handler exampleEnv workingProvider (exampleRequest ''GET'' JNull) =
     handler exampleEnv workingProvider (exampleRequest ''GET'' scenarioA)"
  using method_gate_after_configuration_gate[of "exampleRequest ''GET'' scenarioA" exampleEnv workingProvider JNull]
    method_gate_after_configuration_gate[of "exampleRequest ''GET'' scenarioA" emptyEnv workingProvider JNull]
    configured_example
  by (simp add: exampleRequest_def str_inject)

text \<open>
  C9, as stated: every POST body in which a field fails, absent fields included, is
  answered 400. In the body \<open>null\<close> every field is absent and every check fails, yet
  destructuring it throws and the answer is 500.
\<close>

theorem null_body_is_not_answered_400:
  "\<not> (configured exampleEnv \<and> reqMethod (exampleRequest ''POST'' JNull) = str ''POST'' \<and>
        list_ex fst (checks (reqBody (exampleRequest ''POST'' JNull))) \<longrightarrow>
        statusCode (fst (handler exampleEnv workingProvider (exampleRequest ''POST'' JNull))) = 400)"
proof -
  have "list_ex fst (checks JNull)"
    by (simp add: checks_def getProp_def validateName_def isValidLength_def falsy_def)
  moreover have "statusCode (fst (handler exampleEnv workingProvider (exampleRequest ''POST'' JNull))) = 500"
    by (subst handler_no_body) (simp_all add: configured_example exampleRequest_def)
  ultimately show ?thesis
    by (simp add: configured_example exampleRequest_def)
qed

theorem first_failing_field_is_reported_witness:
  "handler exampleEnv workingProvider (exampleRequest ''POST'' scenarioB) =
     (\<lparr>statusCode = 400, headers = corsHeaders None (getAllowedOrigins exampleEnv),
       json = Some (failure (str ''Invalid email address. Please provide a valid email.''))\<rparr>,
      [ConsoleLog (str ''Received form submission'')]) \<and>
   falsy (validateName JUndefined) \<and> falsy (validateEmail (JNumber (Num False (str ''5'')))) \<and>
   validateProducts (JString (str ''CBB60'')) = None \<and> validateProducts (JArray []) = None \<and>
   getProp (JObject [(str ''name'', JString (str ''Jane Doe''))]) (str ''email'') = JUndefined \<and>
   handler exampleEnv workingProvider (exampleRequest ''POST'' JNull) =
     (\<lparr>statusCode = 500, headers = corsHeaders None (getAllowedOrigins exampleEnv),
       json = Some (failure (str ''An error occurred while processing your request. Please try again later.''))\<rparr>,
      [ConsoleLog (str ''Received form submission''),
       ConsoleError (str ''Error processing inquiry:'')])"
proof -
  have b: "scenarioB \<noteq> JUndefined" "scenarioB \<noteq> JNull" by (simp_all add: scenarioB_def inquiry_def)
  have k: "str ''email'' \<notin> fst ` set [(str ''name'', JString (str ''Jane Doe''))]"
    by (simp add: str_inject)
  note t = first_failing_field_is_reported[of exampleEnv "exampleRequest ''POST'' scenarioB" workingProvider]
  from t[of JUndefined] configured_example(1) b checks_scenarioB firstFailure_scenarioB
  have 1: "handler exampleEnv workingProvider (exampleRequest ''POST'' scenarioB) =
     (\<lparr>statusCode = 400, headers = corsHeaders None (getAllowedOrigins exampleEnv),
       json = Some (failure (str ''Invalid email address. Please provide a valid email.''))\<rparr>,
      [ConsoleLog (str ''Received form submission'')])"
    by (auto simp: exampleRequest_def)
  from t[of JUndefined] have 2: "falsy (validateName JUndefined)" by simp
  from t[of "JNumber (Num False (str ''5''))"] have 3: "falsy (validateEmail (JNumber (Num False (str ''5''))))" by simp
  from t[of "JString (str ''CBB60'')"] have 4: "validateProducts (JString (str ''CBB60'')) = None" by simp
  from t[of "JArray []"] have 5: "validateProducts (JArray []) = None" by simp
  from t[of JNull "str ''email''" "[(str ''name'', JString (str ''Jane Doe''))]"] k
  have 6: "getProp (JObject [(str ''name'', JString (str ''Jane Doe''))]) (str ''email'') = JUndefined"
    by blast
  from first_failing_field_is_reported[of exampleEnv "exampleRequest ''POST'' JNull" workingProvider JNull]
    configured_example(1)
  have 7: "handler exampleEnv workingProvider (exampleRequest ''POST'' JNull) =
     (\<lparr>statusCode = 500, headers = corsHeaders None (getAllowedOrigins exampleEnv),
       json = Some (failure (str ''An error occurred while processing your request. Please try again later.''))\<rparr>,
      [ConsoleLog (str ''Received form submission''),
       ConsoleError (str ''Error processing inquiry:'')])"
    by (simp add: exampleRequest_def)
  from 1 2 3 4 5 6 7 show ?thesis by (intro conjI)
qed

theorem upstream_failure_is_not_surfaced_witness:
  "fst (handler exampleEnv failingProvider (exampleRequest ''POST'' scenarioA)) =
     \<lparr>statusCode = 500, headers = corsHeaders None (getAllowedOrigins exampleEnv),
      json = Some (failure (str ''An error occurred while processing your request. Please try again later.''))\<rparr>"
proof -
  have f: "\<And>q. \<exists>r. fetch failingProvider q = FetchResolved r \<and> \<not> ok r"
    by (simp add: failingProvider_def)
  have v: "\<not> list_ex fst (checks (reqBody (exampleRequest ''POST'' scenarioA)))"
    using checks_scenarioA by (simp add: exampleRequest_def)
  have p: "reqMethod (exampleRequest ''POST'' scenarioA) = str ''POST''" by (simp add: exampleRequest_def)
  from upstream_failure_is_not_surfaced[OF configured_example(1) p v f]
  show ?thesis by (simp add: exampleRequest_def)
qed


section \<open>What the two handlers send\<close>

lemma sent_append: "sent (a @ b) = sent a @ sent b"
  by (induction a rule: sent.induct) simp_all

lemma dispatch_sent:
  "sent (snd (dispatch apiKey toEmail FROM rt n c e k ps m)) =
     [\<lparr>url = str ''https://api.resend.com/emails'',
       fetchMethod = str ''POST'',
       authorization = str ''Bearer '' @ apiKey,
       contentType = str ''application/json'',
       fetchBody =
         \<lparr>mail_from = (if includesStr FROM (str ''resend.dev'') then FROM
                       else str ''Motor Run Capacitor <'' @ FROM @ str ''>''),
          mail_to = [toEmail],
          mail_subject = str ''New Inquiry: '' @ n @ str '' from '' @ c,
          mail_html = emailHTML n c e k (joinStr (str '', '') ps)
                        (replaceAll 0x0A (str ''<br>'') m) (now rt),
          mail_reply_to = JString e\<rparr>\<rparr>]"
proof -
  define q where "q = \<lparr>url = str ''https://api.resend.com/emails'',
       fetchMethod = str ''POST'',
       authorization = str ''Bearer '' @ apiKey,
       contentType = str ''application/json'',
       fetchBody =
         \<lparr>mail_from = (if includesStr FROM (str ''resend.dev'') then FROM
                       else str ''Motor Run Capacitor <'' @ FROM @ str ''>''),
          mail_to = [toEmail],
          mail_subject = str ''New Inquiry: '' @ n @ str '' from '' @ c,
          mail_html = emailHTML n c e k (joinStr (str '', '') ps)
                        (replaceAll 0x0A (str ''<br>'') m) (now rt),
          mail_reply_to = JString e\<rparr>\<rparr>"
  show ?thesis
    unfolding dispatch_def Let_def q_def[symmetric]
    by (cases "fetch rt q") (simp_all add: sent_append split: sum.splits)
qed

lemma dispatch_ok:
  assumes "\<And>q. \<exists>r d. fetch rt q = FetchResolved r \<and> ok r \<and> bodyJson r = Inr d"
  shows "fst (dispatch apiKey toEmail FROM rt n c e k ps m) =
     Return (200, JObject [(str ''success'', JBool True),
                           (str ''message'', JString (str ''Inquiry submitted successfully''))])"
proof -
  define q where "q = \<lparr>url = str ''https://api.resend.com/emails'',
             fetchMethod = str ''POST'',
             authorization = str ''Bearer '' @ apiKey,
             contentType = str ''application/json'',
             fetchBody = \<lparr>mail_from = (if includesStr FROM (str ''resend.dev'') then FROM
                       else str ''Motor Run Capacitor <'' @ FROM @ str ''>''),
             mail_to = [toEmail],
             mail_subject = str ''New Inquiry: '' @ n @ str '' from '' @ c,
             mail_html = emailHTML n c e k (joinStr (str '', '') ps) (replaceAll 0x0A (str ''<br>'') m) (now rt),
             mail_reply_to = JString e\<rparr>\<rparr>"
  from assms obtain r d where r: "fetch rt q = FetchResolved r" "ok r" "bodyJson r = Inr d" by blast
  show ?thesis
    unfolding dispatch_def Let_def q_def[symmetric] r using r(2,3) by simp
qed

lemma tryBlock_validated:
  assumes "validateName (getProp body (str ''name'')) = Some n" "n \<noteq> []"
    "validateCompany (getProp body (str ''company'')) = Some c" "c \<noteq> []"
    "validateEmail (getProp body (str ''email'')) = Some e" "e \<noteq> []"
    "validateCountry (getProp body (str ''country'')) = Some k" "k \<noteq> []"
    "validateProducts (getProp body (str ''products'')) = Some ps"
    "validateMessage (getProp body (str ''message'')) = Some m" "m \<noteq> []"
  shows "tryBlock apiKey toEmail FROM rt body =
     (fst (dispatch apiKey toEmail FROM rt n c e k ps m),
      [ConsoleLog (str ''Received form submission'')] @ snd (dispatch apiKey toEmail FROM rt n c e k ps m))"
proof -
  from assms(1) have "body \<noteq> JUndefined" "body \<noteq> JNull"
    by (auto simp: getProp_def validateName_def isValidLength_def)
  then show ?thesis
    unfolding tryBlock_def Let_def using assms by (simp add: falsy_def split: prod.splits)
qed

lemma handler_post_sent:
  assumes "RESEND_API_KEY e = Some apiKey" "apiKey \<noteq> []" "TO_EMAIL e = Some toEmail"
    "toEmail \<noteq> []" "reqMethod req = str ''POST''"
  shows "sent (snd (handler e rt req)) = sent (snd (tryBlock apiKey toEmail (sender e) rt (reqBody req)))"
  unfolding handler_post[OF assms]
  by (simp add: sent_append split: prod.splits completion.splits)

lemma validate_markup:
  "validateName (JString (str ''Tom & Co'')) = Some (str ''Tom &amp; Co'')"
  "validateCompany (JString (str ''A/B'')) = Some (str ''A&#x2F;B'')"
  "validateMessage (JString (str ''Need <b>50</b> units'')) = Some (str ''Need &lt;b&gt;50&lt;&#x2F;b&gt; units'')"
  by (simp_all add: validateName_def validateCompany_def validateMessage_def isValidLength_def
      trim_def isWhiteSpace_def sanitize_concat esc_def str_simps)

lemma validate_tom_email: "validateEmail (JString (str ''tom@ab.com'')) = Some (str ''tom@ab.com'')"
proof -
  have "isValidEmail (str ''tom@ab.com'')"
    unfolding isValidEmail_shape
    by (rule exI[of _ "str ''tom''"], rule exI[of _ "str ''ab''"], rule exI[of _ "str ''com''"])
      (simp add: notSpaceOrAt_def isWhiteSpace_def str_simps)
  then show ?thesis
    by (simp add: validateEmail_def isValidLength_def trim_def isWhiteSpace_def sanitize_concat esc_def str_simps)
qed

lemma exampleEnv_fields:
  "RESEND_API_KEY exampleEnv = Some (str ''re_test_key'')" "str ''re_test_key'' \<noteq> []"
  "TO_EMAIL exampleEnv = Some (str ''sales@example.com'')" "str ''sales@example.com'' \<noteq> []"
  by (simp_all add: exampleEnv_def str_eq_Nil)

lemma post_method: "reqMethod (exampleRequest ''POST'' b) = str ''POST''" "reqBody (exampleRequest m b) = b"
  by (simp_all add: exampleRequest_def)

lemma workingProvider_ok:
  "\<exists>r d. fetch workingProvider q = FetchResolved r \<and> ok r \<and> bodyJson r = Inr d \<and> d \<noteq> JUndefined \<and> d \<noteq> JNull"
  by (simp add: workingProvider_def)

lemma tryBlock_markup:
  "tryBlock apiKey toEmail FROM rt markup =
     (fst (dispatch apiKey toEmail FROM rt (str ''Tom &amp; Co'') (str ''A&#x2F;B'') (str ''tom@ab.com'')
             (str ''USA'') [str ''CBB60''] (str ''Need &lt;b&gt;50&lt;&#x2F;b&gt; units'')),
      [ConsoleLog (str ''Received form submission'')] @
      snd (dispatch apiKey toEmail FROM rt (str ''Tom &amp; Co'') (str ''A&#x2F;B'') (str ''tom@ab.com'')
             (str ''USA'') [str ''CBB60''] (str ''Need &lt;b&gt;50&lt;&#x2F;b&gt; units'')))"
  by (rule tryBlock_validated)
    (simp_all add: markup_def getProp_inquiry validate_markup validate_tom_email validate_usa
      validate_cbb60 str_eq_Nil)

lemma handler_markup_status:
  "statusCode (fst (handler exampleEnv workingProvider (exampleRequest ''POST'' markup))) = 200"
proof -
  have "\<And>q. \<exists>r d. fetch workingProvider q = FetchResolved r \<and> ok r \<and> bodyJson r = Inr d"
    using workingProvider_ok by blast
  from dispatch_ok[OF this]
  show ?thesis
    unfolding handler_post[OF exampleEnv_fields post_method(1)] post_method(2) tryBlock_markup
    by simp
qed

lemma handler_markup_sent:
  "sent (snd (handler exampleEnv workingProvider (exampleRequest ''POST'' markup))) =
     [\<lparr>url = str ''https://api.resend.com/emails'',
       fetchMethod = str ''POST'',
       authorization = str ''Bearer '' @ str ''re_test_key'',
       contentType = str ''application/json'',
       fetchBody =
         \<lparr>mail_from = str ''Motor Run Capacitor <'' @ str ''noreply@eperscapacitor.com'' @ str ''>'',
          mail_to = [str ''sales@example.com''],
          mail_subject = str ''New Inquiry: '' @ str ''Tom &amp; Co'' @ str '' from '' @ str ''A&#x2F;B'',
          mail_html = emailHTML (str ''Tom &amp; Co'') (str ''A&#x2F;B'') (str ''tom@ab.com'') (str ''USA'')
                        (str ''CBB60'') (str ''Need &lt;b&gt;50&lt;&#x2F;b&gt; units'') (now workingProvider),
          mail_reply_to = JString (str ''tom@ab.com'')\<rparr>\<rparr>]"
proof -
  have s: "sender exampleEnv = str ''noreply@eperscapacitor.com''"
    by (simp add: sender_def exampleEnv_def falsy_def)
  have i: "\<not> includesStr (str ''noreply@eperscapacitor.com'') (str ''resend.dev'')"
    by (simp add: str_simps startsWith_def)
  have r: "replaceAll 0x0A (str ''<br>'') (str ''Need &lt;b&gt;50&lt;&#x2F;b&gt; units'') = str ''Need &lt;b&gt;50&lt;&#x2F;b&gt; units''"
    by (simp add: replaceAll_def str_simps)
  show ?thesis
    unfolding handler_post_sent[OF exampleEnv_fields post_method(1)] post_method(2) tryBlock_markup
    by (simp add: sent_append dispatch_sent s i r)
qed

lemma handler_scenarioB_status:
  "statusCode (fst (handler exampleEnv workingProvider (exampleRequest ''POST'' scenarioB))) = 400"
proof -
  have b: "scenarioB \<noteq> JUndefined" "scenarioB \<noteq> JNull" by (simp_all add: scenarioB_def inquiry_def)
  show ?thesis
    unfolding handler_post[OF exampleEnv_fields post_method(1)] post_method(2)
      tryBlock_failure[OF b firstFailure_scenarioB]
    by simp
qed

subsection \<open>The legacy handler\<close>

lemma legacySend_sent:
  "sent (snd (legacySend rt email n c e k p m)) =
     [\<lparr>url = str ''https://api.resend.com/emails'',
       fetchMethod = str ''POST'',
       authorization = str ''Bearer re_Wb6wExws_6bZtSDtaNp85tJTZt7Q8apVm'',
       contentType = str ''application/json'',
       fetchBody =
         \<lparr>mail_from = str ''Motor Run Capacitor <noreply@eperscapacitor.com>'',
          mail_to = [str ''sales@eperscapacitor.com''],
          mail_subject = str ''New Inquiry: '' @ n @ str '' from '' @ c,
          mail_html = emailHTML n c e k p m (now rt),
          mail_reply_to = email\<rparr>\<rparr>]"
proof -
  define q where "q = \<lparr>url = str ''https://api.resend.com/emails'',
       fetchMethod = str ''POST'',
       authorization = str ''Bearer re_Wb6wExws_6bZtSDtaNp85tJTZt7Q8apVm'',
       contentType = str ''application/json'',
       fetchBody =
         \<lparr>mail_from = str ''Motor Run Capacitor <noreply@eperscapacitor.com>'',
          mail_to = [str ''sales@eperscapacitor.com''],
          mail_subject = str ''New Inquiry: '' @ n @ str '' from '' @ c,
          mail_html = emailHTML n c e k p m (now rt),
          mail_reply_to = email\<rparr>\<rparr>"
  show ?thesis
    unfolding legacySend_def Let_def q_def[symmetric]
    by (cases "fetch rt q") (simp_all add: sent_append split: sum.splits)
qed

lemma legacySend_ok:
  assumes "\<And>q. \<exists>r d. fetch rt q = FetchResolved r \<and> ok r \<and> bodyJson r = Inr d \<and> d \<noteq> JUndefined \<and> d \<noteq> JNull"
  shows "\<exists>obj. fst (legacySend rt email n c e k p m) = Return (200, obj)"
proof -
  define q where "q = \<lparr>url = str ''https://api.resend.com/emails'',
       fetchMethod = str ''POST'',
       authorization = str ''Bearer re_Wb6wExws_6bZtSDtaNp85tJTZt7Q8apVm'',
       contentType = str ''application/json'',
       fetchBody =
         \<lparr>mail_from = str ''Motor Run Capacitor <noreply@eperscapacitor.com>'',
          mail_to = [str ''sales@eperscapacitor.com''],
          mail_subject = str ''New Inquiry: '' @ n @ str '' from '' @ c,
          mail_html = emailHTML n c e k p m (now rt),
          mail_reply_to = email\<rparr>\<rparr>"
  from assms obtain r d where r: "fetch rt q = FetchResolved r" "ok r" "bodyJson r = Inr d"
    "d \<noteq> JUndefined" "d \<noteq> JNull" by blast
  show ?thesis
    unfolding legacySend_def Let_def q_def[symmetric] r using r(2-) by simp
qed

lemma legacyDispatch_converted:
  assumes "toStringJs name = Inr n" "toStringJs company = Inr c" "toStringJs email = Inr e"
    "toStringJs country = Inr k"
    "(case products of JArray ps \<Rightarrow> joinVals (str '', '') ps | _ \<Rightarrow> toStringJs products) = Inr p"
    "toStringJs message = Inr m"
  shows "legacyDispatch rt name company email country products message =
           legacySend rt email n c e k p m"
  using assms unfolding legacyDispatch_def Let_def
  by (cases products) (simp_all split: sum.splits)

lemma legacyDispatch_thrown:
  assumes "list_ex isl [toStringJs name, toStringJs company, toStringJs email, toStringJs country,
      (case products of JArray ps \<Rightarrow> joinVals (str '', '') ps | _ \<Rightarrow> toStringJs products),
      toStringJs message]"
  shows "\<exists>bad. legacyDispatch rt name company email country products message =
           (Throw (convertMessage rt bad), [ConsoleLog (str ''Fields validated, preparing email...'')])"
  using assms unfolding legacyDispatch_def Let_def
  by (cases products) (auto split: sum.splits)

lemma legacyDispatch_cases:
  "(\<exists>bad. legacyDispatch rt name company email country products message =
           (Throw (convertMessage rt bad), [ConsoleLog (str ''Fields validated, preparing email...'')])) \<or>
   (\<exists>n c e k p m. legacyDispatch rt name company email country products message =
           legacySend rt email n c e k p m)"
proof (cases "list_ex isl [toStringJs name, toStringJs company, toStringJs email, toStringJs country,
      (case products of JArray ps \<Rightarrow> joinVals (str '', '') ps | _ \<Rightarrow> toStringJs products),
      toStringJs message]")
  case True
  from legacyDispatch_thrown[OF True] show ?thesis by blast
next
  case False
  then obtain n c e k p m where "toStringJs name = Inr n" "toStringJs company = Inr c"
    "toStringJs email = Inr e" "toStringJs country = Inr k"
    "(case products of JArray ps \<Rightarrow> joinVals (str '', '') ps | _ \<Rightarrow> toStringJs products) = Inr p"
    "toStringJs message = Inr m"
    by (auto simp: isl_def) (metis sum.exhaust)
  from legacyDispatch_converted[OF this] show ?thesis by blast
qed

lemma legacyTryBlock_truthy:
  assumes "body \<noteq> JUndefined" "body \<noteq> JNull"
    "truthy (getProp body (str ''name''))" "truthy (getProp body (str ''company''))"
    "truthy (getProp body (str ''email''))" "truthy (getProp body (str ''country''))"
    "truthy (getProp body (str ''products''))" "truthy (getProp body (str ''message''))"
  shows "legacyTryBlock rt body =
     (fst (legacyDispatch rt (getProp body (str ''name'')) (getProp body (str ''company''))
             (getProp body (str ''email'')) (getProp body (str ''country''))
             (getProp body (str ''products'')) (getProp body (str ''message''))),
      [ConsoleLog (str ''Received form submission''), ConsoleLog (str ''Request body:'')] @
      snd (legacyDispatch rt (getProp body (str ''name'')) (getProp body (str ''company''))
             (getProp body (str ''email'')) (getProp body (str ''country''))
             (getProp body (str ''products'')) (getProp body (str ''message''))))"
  unfolding legacyTryBlock_def Let_def using assms by (simp split: prod.splits)

lemma legacyHandler_post:
  assumes "reqMethod req = str ''POST''"
  shows "sent (snd (legacyHandler rt req)) = sent (snd (legacyTryBlock rt (reqBody req)))"
    "statusCode (fst (legacyHandler rt req)) =
       (case fst (legacyTryBlock rt (reqBody req)) of Return (code, obj) \<Rightarrow> code | Throw msg \<Rightarrow> 500)"
  unfolding legacyHandler_def Let_def using assms methods_differ
  by (simp_all add: sent_append split: prod.splits completion.splits)

lemma legacy_sent_cases:
  "sent (snd (legacyHandler rt req)) = [] \<or>
   (\<exists>email n c e k p m.
      sent (snd (legacyHandler rt req)) = sent (snd (legacySend rt email n c e k p m)))"
proof (cases "reqMethod req = str ''POST''")
  case False
  then show ?thesis by (simp add: legacyHandler_def Let_def)
next
  case True
  show ?thesis
  proof (cases "reqBody req \<noteq> JUndefined \<and> reqBody req \<noteq> JNull \<and>
      truthy (getProp (reqBody req) (str ''name'')) \<and> truthy (getProp (reqBody req) (str ''company'')) \<and>
      truthy (getProp (reqBody req) (str ''email'')) \<and> truthy (getProp (reqBody req) (str ''country'')) \<and>
      truthy (getProp (reqBody req) (str ''products'')) \<and> truthy (getProp (reqBody req) (str ''message''))")
    case accepted: True
    then have t: "legacyTryBlock rt (reqBody req) =
     (fst (legacyDispatch rt (getProp (reqBody req) (str ''name'')) (getProp (reqBody req) (str ''company''))
             (getProp (reqBody req) (str ''email'')) (getProp (reqBody req) (str ''country''))
             (getProp (reqBody req) (str ''products'')) (getProp (reqBody req) (str ''message''))),
      [ConsoleLog (str ''Received form submission''), ConsoleLog (str ''Request body:'')] @
      snd (legacyDispatch rt (getProp (reqBody req) (str ''name'')) (getProp (reqBody req) (str ''company''))
             (getProp (reqBody req) (str ''email'')) (getProp (reqBody req) (str ''country''))
             (getProp (reqBody req) (str ''products'')) (getProp (reqBody req) (str ''message''))))"
      by (intro legacyTryBlock_truthy) simp_all
    from legacyDispatch_cases[of rt "getProp (reqBody req) (str ''name'')" "getProp (reqBody req) (str ''company'')"
        "getProp (reqBody req) (str ''email'')" "getProp (reqBody req) (str ''country'')"
        "getProp (reqBody req) (str ''products'')" "getProp (reqBody req) (str ''message'')"]
    show ?thesis
    proof
      assume "\<exists>bad. legacyDispatch rt (getProp (reqBody req) (str ''name'')) (getProp (reqBody req) (str ''company''))
             (getProp (reqBody req) (str ''email'')) (getProp (reqBody req) (str ''country''))
             (getProp (reqBody req) (str ''products'')) (getProp (reqBody req) (str ''message'')) =
           (Throw (convertMessage rt bad), [ConsoleLog (str ''Fields validated, preparing email...'')])"
      then have "sent (snd (legacyHandler rt req)) = []"
        unfolding legacyHandler_post(1)[OF True] t by (auto simp: sent_append)
      then show ?thesis by blast
    next
      assume "\<exists>n c e k p m. legacyDispatch rt (getProp (reqBody req) (str ''name'')) (getProp (reqBody req) (str ''company''))
             (getProp (reqBody req) (str ''email'')) (getProp (reqBody req) (str ''country''))
             (getProp (reqBody req) (str ''products'')) (getProp (reqBody req) (str ''message'')) =
           legacySend rt (getProp (reqBody req) (str ''email'')) n c e k p m"
      then obtain n c e k p m where "sent (snd (legacyHandler rt req)) =
          sent (snd (legacySend rt (getProp (reqBody req) (str ''email'')) n c e k p m))"
        unfolding legacyHandler_post(1)[OF True] t by (auto simp: sent_append)
      then show ?thesis by blast
    qed
  next
    case False
    then have "sent (snd (legacyTryBlock rt (reqBody req))) = []"
      unfolding legacyTryBlock_def Let_def by auto
    then show ?thesis unfolding legacyHandler_post(1)[OF True] by simp
  qed
qed

lemma legacy_hardCoded: "list_all hardCoded (sent (snd (legacyHandler rt req)))"
  using legacy_sent_cases[of rt req] by (auto simp: legacySend_sent hardCoded_def)

lemma legacy_dispatch_of_texts:
  assumes "legacyTexts body = [Inr n, Inr c, Inr e, Inr k, Inr p, Inr m]"
  shows "legacyDispatch rt (getProp body (str ''name'')) (getProp body (str ''company''))
             (getProp body (str ''email'')) (getProp body (str ''country''))
             (getProp body (str ''products'')) (getProp body (str ''message'')) =
         legacySend rt (getProp body (str ''email'')) n c e k p m"
  using assms by (intro legacyDispatch_converted) (simp_all add: legacyTexts_def)

lemma legacy_raw:
  assumes "reqMethod req = str ''POST''" "reqBody req \<noteq> JUndefined" "reqBody req \<noteq> JNull"
    "truthy (getProp (reqBody req) (str ''name''))" "truthy (getProp (reqBody req) (str ''company''))"
    "truthy (getProp (reqBody req) (str ''email''))" "truthy (getProp (reqBody req) (str ''country''))"
    "truthy (getProp (reqBody req) (str ''products''))" "truthy (getProp (reqBody req) (str ''message''))"
    "legacyTexts (reqBody req) = [Inr n, Inr c, Inr e, Inr k, Inr p, Inr m]"
  shows "map fetchBody (sent (snd (legacyHandler rt req))) =
     [\<lparr>mail_from = str ''Motor Run Capacitor <noreply@eperscapacitor.com>'',
       mail_to = [str ''sales@eperscapacitor.com''],
       mail_subject = str ''New Inquiry: '' @ n @ str '' from '' @ c,
       mail_html = emailHTML n c e k p m (now rt),
       mail_reply_to = getProp (reqBody req) (str ''email'')\<rparr>]"
  unfolding legacyHandler_post(1)[OF assms(1)] legacyTryBlock_truthy[OF assms(2-9)]
    legacy_dispatch_of_texts[OF assms(10)]
  by (simp add: sent_append legacySend_sent)

lemma legacy_unconverted:
  assumes "reqMethod req = str ''POST''" "reqBody req \<noteq> JUndefined" "reqBody req \<noteq> JNull"
    "truthy (getProp (reqBody req) (str ''name''))" "truthy (getProp (reqBody req) (str ''company''))"
    "truthy (getProp (reqBody req) (str ''email''))" "truthy (getProp (reqBody req) (str ''country''))"
    "truthy (getProp (reqBody req) (str ''products''))" "truthy (getProp (reqBody req) (str ''message''))"
    "list_ex isl (legacyTexts (reqBody req))"
  shows "sent (snd (legacyHandler rt req)) = []" "statusCode (fst (legacyHandler rt req)) = 500"
proof -
  from assms(10) have "list_ex isl [toStringJs (getProp (reqBody req) (str ''name'')),
      toStringJs (getProp (reqBody req) (str ''company'')), toStringJs (getProp (reqBody req) (str ''email'')),
      toStringJs (getProp (reqBody req) (str ''country'')),
      (case getProp (reqBody req) (str ''products'') of JArray ps \<Rightarrow> joinVals (str '', '') ps
       | _ \<Rightarrow> toStringJs (getProp (reqBody req) (str ''products''))),
      toStringJs (getProp (reqBody req) (str ''message''))]"
    by (simp add: legacyTexts_def)
  from legacyDispatch_thrown[OF this] obtain bad where
    d: "legacyDispatch rt (getProp (reqBody req) (str ''name'')) (getProp (reqBody req) (str ''company''))
             (getProp (reqBody req) (str ''email'')) (getProp (reqBody req) (str ''country''))
             (getProp (reqBody req) (str ''products'')) (getProp (reqBody req) (str ''message'')) =
           (Throw (convertMessage rt bad), [ConsoleLog (str ''Fields validated, preparing email...'')])"
    by blast
  show "sent (snd (legacyHandler rt req)) = []"
    unfolding legacyHandler_post(1)[OF assms(1)] legacyTryBlock_truthy[OF assms(2-9)] d
    by (simp add: sent_append)
  show "statusCode (fst (legacyHandler rt req)) = 500"
    unfolding legacyHandler_post(2)[OF assms(1)] legacyTryBlock_truthy[OF assms(2-9)] d
    by simp
qed

lemma legacy_status_ok:
  assumes "reqMethod req = str ''POST''" "reqBody req \<noteq> JUndefined" "reqBody req \<noteq> JNull"
    "truthy (getProp (reqBody req) (str ''name''))" "truthy (getProp (reqBody req) (str ''company''))"
    "truthy (getProp (reqBody req) (str ''email''))" "truthy (getProp (reqBody req) (str ''country''))"
    "truthy (getProp (reqBody req) (str ''products''))" "truthy (getProp (reqBody req) (str ''message''))"
    "legacyTexts (reqBody req) = [Inr n, Inr c, Inr e, Inr k, Inr p, Inr m]"
    "\<And>q. \<exists>r d. fetch rt q = FetchResolved r \<and> ok r \<and> bodyJson r = Inr d \<and> d \<noteq> JUndefined \<and> d \<noteq> JNull"
  shows "statusCode (fst (legacyHandler rt req)) = 200"
proof -
  from legacySend_ok[OF assms(11)] obtain obj where
    "fst (legacySend rt (getProp (reqBody req) (str ''email'')) n c e k p m) = Return (200, obj)"
    by blast
  then show ?thesis
    unfolding legacyHandler_post(2)[OF assms(1)] legacyTryBlock_truthy[OF assms(2-9)]
      legacy_dispatch_of_texts[OF assms(10)] by simp
qed

lemma truthy_inquiry:
  assumes "n \<noteq> []" "c \<noteq> []" "e \<noteq> []" "k \<noteq> []" "m \<noteq> []"
  shows "inquiry n c e k ps m \<noteq> JUndefined" "inquiry n c e k ps m \<noteq> JNull"
    "truthy (getProp (inquiry n c e k ps m) (str ''name''))"
    "truthy (getProp (inquiry n c e k ps m) (str ''company''))"
    "truthy (getProp (inquiry n c e k ps m) (str ''email''))"
    "truthy (getProp (inquiry n c e k ps m) (str ''country''))"
    "truthy (getProp (inquiry n c e k ps m) (str ''products''))"
    "truthy (getProp (inquiry n c e k ps m) (str ''message''))"
  using assms by (simp_all add: getProp_inquiry str_eq_Nil) (simp_all add: inquiry_def)

lemma legacyTexts_inquiry:
  "legacyTexts (inquiry n c e k [p] m) = [Inr (str n), Inr (str c), Inr (str e), Inr (str k), Inr (str p), Inr (str m)]"
  by (simp add: legacyTexts_def getProp_inquiry joinVals_def)

lemma legacy_accepts:
  assumes "n \<noteq> []" "c \<noteq> []" "e \<noteq> []" "k \<noteq> []" "m \<noteq> []"
  shows "statusCode (fst (legacyHandler workingProvider (exampleRequest ''POST'' (inquiry n c e k [p] m)))) = 200"
  by (rule legacy_status_ok[where n="str n" and c="str c" and e="str e" and k="str k" and p="str p" and m="str m"])
    (simp_all add: post_method truthy_inquiry[OF assms] workingProvider_def legacyTexts_inquiry)

lemma legacy_markup_sent:
  "map fetchBody (sent (snd (legacyHandler rt (exampleRequest ''POST'' markup)))) =
     [\<lparr>mail_from = str ''Motor Run Capacitor <noreply@eperscapacitor.com>'',
       mail_to = [str ''sales@eperscapacitor.com''],
       mail_subject = str ''New Inquiry: '' @ str ''Tom & Co'' @ str '' from '' @ str ''A/B'',
       mail_html = emailHTML (str ''Tom & Co'') (str ''A/B'') (str ''tom@ab.com'') (str ''USA'')
                     (str ''CBB60'') (str ''Need <b>50</b> units'') (now rt),
       mail_reply_to = JString (str ''tom@ab.com'')\<rparr>]"
proof -
  have ne: "''Tom & Co'' \<noteq> []" "''A/B'' \<noteq> []" "''tom@ab.com'' \<noteq> []" "''USA'' \<noteq> []"
    "''Need <b>50</b> units'' \<noteq> []" by simp_all
  note t = truthy_inquiry[OF ne, of "[''CBB60'']"]
  show ?thesis
    unfolding markup_def
    by (subst legacy_raw[where n="str ''Tom & Co''" and c="str ''A/B''" and e="str ''tom@ab.com''"
          and k="str ''USA''" and p="str ''CBB60''" and m="str ''Need <b>50</b> units''"])
      (simp_all add: post_method t(1,2) legacyTexts_inquiry getProp_inquiry str_eq_Nil)
qed

lemma unprintable_facts:
  "unprintable \<noteq> JUndefined" "unprintable \<noteq> JNull"
  "truthy (getProp unprintable (str ''name''))" "truthy (getProp unprintable (str ''company''))"
  "truthy (getProp unprintable (str ''email''))" "truthy (getProp unprintable (str ''country''))"
  "truthy (getProp unprintable (str ''products''))" "truthy (getProp unprintable (str ''message''))"
  "list_ex isl (legacyTexts unprintable)"
  by (simp_all add: unprintable_def getProp_def legacyTexts_def str_inject str_eq_Nil)

text \<open>
  C10: the legacy handler is not equivalent to the authoritative one. Whatever it sends
  carries the credential, the sender and the recipient written in its source. For every
  POST body whose six fields are truthy it applies no length, format or whitelist check
  and no escaping: when the fields can be converted to strings it sends a message that
  embeds the converted values as they are (a string field is embedded unchanged), and when
  a conversion throws it answers 500 and sends nothing. For the example inquiry with
  markup characters both handlers answer 200; the authoritative handler embeds the
  escaped values and uses the configured credential and recipient, the legacy handler
  embeds the raw values. The inquiry with a malformed address is answered 200 by the
  legacy handler and 400 by the authoritative one.
\<close>

theorem legacy_handler_not_equivalent:
  "list_all hardCoded (sent (snd (legacyHandler rt req))) \<and>
   (reqMethod req = str ''POST'' \<and> reqBody req \<noteq> JUndefined \<and> reqBody req \<noteq> JNull \<and>
    truthy (getProp (reqBody req) (str ''name'')) \<and> truthy (getProp (reqBody req) (str ''company'')) \<and>
    truthy (getProp (reqBody req) (str ''email'')) \<and> truthy (getProp (reqBody req) (str ''country'')) \<and>
    truthy (getProp (reqBody req) (str ''products'')) \<and> truthy (getProp (reqBody req) (str ''message'')) \<and>
    legacyTexts (reqBody req) = [Inr n, Inr c, Inr e, Inr k, Inr p, Inr m] \<longrightarrow>
      map fetchBody (sent (snd (legacyHandler rt req))) =
        [\<lparr>mail_from = str ''Motor Run Capacitor <noreply@eperscapacitor.com>'',
          mail_to = [str ''sales@eperscapacitor.com''],
          mail_subject = str ''New Inquiry: '' @ n @ str '' from '' @ c,
          mail_html = emailHTML n c e k p m (now rt),
          mail_reply_to = getProp (reqBody req) (str ''email'')\<rparr>]) \<and>
   (reqMethod req = str ''POST'' \<and> reqBody req \<noteq> JUndefined \<and> reqBody req \<noteq> JNull \<and>
    truthy (getProp (reqBody req) (str ''name'')) \<and> truthy (getProp (reqBody req) (str ''company'')) \<and>
    truthy (getProp (reqBody req) (str ''email'')) \<and> truthy (getProp (reqBody req) (str ''country'')) \<and>
    truthy (getProp (reqBody req) (str ''products'')) \<and> truthy (getProp (reqBody req) (str ''message'')) \<and>
    list_ex isl (legacyTexts (reqBody req)) \<longrightarrow>
      sent (snd (legacyHandler rt req)) = [] \<and> statusCode (fst (legacyHandler rt req)) = 500) \<and>
   toStringJs (JString s) = Inr s \<and>
   statusCode (fst (handler exampleEnv workingProvider (exampleRequest ''POST'' markup))) = 200 \<and>
   statusCode (fst (legacyHandler workingProvider (exampleRequest ''POST'' markup))) = 200 \<and>
   map fetchBody (sent (snd (handler exampleEnv workingProvider (exampleRequest ''POST'' markup)))) =
     [\<lparr>mail_from = str ''Motor Run Capacitor <noreply@eperscapacitor.com>'',
       mail_to = [str ''sales@example.com''],
       mail_subject = str ''New Inquiry: Tom &amp; Co from A&#x2F;B'',
       mail_html = emailHTML (str ''Tom &amp; Co'') (str ''A&#x2F;B'') (str ''tom@ab.com'') (str ''USA'')
                     (str ''CBB60'') (str ''Need &lt;b&gt;50&lt;&#x2F;b&gt; units'') (now workingProvider),
       mail_reply_to = JString (str ''tom@ab.com'')\<rparr>] \<and>
   map fetchBody (sent (snd (legacyHandler workingProvider (exampleRequest ''POST'' markup)))) =
     [\<lparr>mail_from = str ''Motor Run Capacitor <noreply@eperscapacitor.com>'',
       mail_to = [str ''sales@eperscapacitor.com''],
       mail_subject = str ''New Inquiry: Tom & Co from A/B'',
       mail_html = emailHTML (str ''Tom & Co'') (str ''A/B'') (str ''tom@ab.com'') (str ''USA'')
                     (str ''CBB60'') (str ''Need <b>50</b> units'') (now workingProvider),
       mail_reply_to = JString (str ''tom@ab.com'')\<rparr>] \<and>
   map authorization (sent (snd (handler exampleEnv workingProvider (exampleRequest ''POST'' markup)))) =
     [str ''Bearer re_test_key''] \<and>
   statusCode (fst (legacyHandler workingProvider (exampleRequest ''POST'' scenarioB))) = 200 \<and>
   statusCode (fst (handler exampleEnv workingProvider (exampleRequest ''POST'' scenarioB))) = 400"
proof (intro conjI impI)
  show "list_all hardCoded (sent (snd (legacyHandler rt req)))" by (rule legacy_hardCoded)
next
  assume "reqMethod req = str ''POST'' \<and> reqBody req \<noteq> JUndefined \<and> reqBody req \<noteq> JNull \<and>
    truthy (getProp (reqBody req) (str ''name'')) \<and> truthy (getProp (reqBody req) (str ''company'')) \<and>
    truthy (getProp (reqBody req) (str ''email'')) \<and> truthy (getProp (reqBody req) (str ''country'')) \<and>
    truthy (getProp (reqBody req) (str ''products'')) \<and> truthy (getProp (reqBody req) (str ''message'')) \<and>
    legacyTexts (reqBody req) = [Inr n, Inr c, Inr e, Inr k, Inr p, Inr m]"
  then show "map fetchBody (sent (snd (legacyHandler rt req))) =
        [\<lparr>mail_from = str ''Motor Run Capacitor <noreply@eperscapacitor.com>'',
          mail_to = [str ''sales@eperscapacitor.com''],
          mail_subject = str ''New Inquiry: '' @ n @ str '' from '' @ c,
          mail_html = emailHTML n c e k p m (now rt),
          mail_reply_to = getProp (reqBody req) (str ''email'')\<rparr>]"
    by (intro legacy_raw) simp_all
next
  assume a: "reqMethod req = str ''POST'' \<and> reqBody req \<noteq> JUndefined \<and> reqBody req \<noteq> JNull \<and>
    truthy (getProp (reqBody req) (str ''name'')) \<and> truthy (getProp (reqBody req) (str ''company'')) \<and>
    truthy (getProp (reqBody req) (str ''email'')) \<and> truthy (getProp (reqBody req) (str ''country'')) \<and>
    truthy (getProp (reqBody req) (str ''products'')) \<and> truthy (getProp (reqBody req) (str ''message'')) \<and>
    list_ex isl (legacyTexts (reqBody req))"
  then show "sent (snd (legacyHandler rt req)) = []"
    by (intro legacy_unconverted(1)) simp_all
  from a show "statusCode (fst (legacyHandler rt req)) = 500"
    by (intro legacy_unconverted(2)) simp_all
next
  show "toStringJs (JString s) = Inr s" by simp
next
  show "statusCode (fst (handler exampleEnv workingProvider (exampleRequest ''POST'' markup))) = 200"
    by (rule handler_markup_status)
next
  show "statusCode (fst (legacyHandler workingProvider (exampleRequest ''POST'' markup))) = 200"
    unfolding markup_def by (rule legacy_accepts) simp_all
next
  show "map fetchBody (sent (snd (handler exampleEnv workingProvider (exampleRequest ''POST'' markup)))) =
     [\<lparr>mail_from = str ''Motor Run Capacitor <noreply@eperscapacitor.com>'',
       mail_to = [str ''sales@example.com''],
       mail_subject = str ''New Inquiry: Tom &amp; Co from A&#x2F;B'',
       mail_html = emailHTML (str ''Tom &amp; Co'') (str ''A&#x2F;B'') (str ''tom@ab.com'') (str ''USA'')
                     (str ''CBB60'') (str ''Need &lt;b&gt;50&lt;&#x2F;b&gt; units'') (now workingProvider),
       mail_reply_to = JString (str ''tom@ab.com'')\<rparr>]"
    unfolding handler_markup_sent by (simp add: str_append[symmetric])
next
  show "map fetchBody (sent (snd (legacyHandler workingProvider (exampleRequest ''POST'' markup)))) =
     [\<lparr>mail_from = str ''Motor Run Capacitor <noreply@eperscapacitor.com>'',
       mail_to = [str ''sales@eperscapacitor.com''],
       mail_subject = str ''New Inquiry: Tom & Co from A/B'',
       mail_html = emailHTML (str ''Tom & Co'') (str ''A/B'') (str ''tom@ab.com'') (str ''USA'')
                     (str ''CBB60'') (str ''Need <b>50</b> units'') (now workingProvider),
       mail_reply_to = JString (str ''tom@ab.com'')\<rparr>]"
    unfolding legacy_markup_sent by (simp add: str_append[symmetric])
next
  show "map authorization (sent (snd (handler exampleEnv workingProvider (exampleRequest ''POST'' markup)))) =
     [str ''Bearer re_test_key'']"
    unfolding handler_markup_sent by (simp add: str_append[symmetric])
next
  show "statusCode (fst (legacyHandler workingProvider (exampleRequest ''POST'' scenarioB))) = 200"
    unfolding scenarioB_def by (rule legacy_accepts) simp_all
next
  show "statusCode (fst (handler exampleEnv workingProvider (exampleRequest ''POST'' scenarioB))) = 400"
    by (rule handler_scenarioB_status)
qed

theorem legacy_handler_not_equivalent_witness:
  "map fetchBody (sent (snd (legacyHandler failingProvider (exampleRequest ''POST'' markup)))) =
     [\<lparr>mail_from = str ''Motor Run Capacitor <noreply@eperscapacitor.com>'',
       mail_to = [str ''sales@eperscapacitor.com''],
       mail_subject = str ''New Inquiry: Tom & Co from A/B'',
       mail_html = emailHTML (str ''Tom & Co'') (str ''A/B'') (str ''tom@ab.com'') (str ''USA'')
                     (str ''CBB60'') (str ''Need <b>50</b> units'') (now failingProvider),
       mail_reply_to = JString (str ''tom@ab.com'')\<rparr>] \<and>
   list_all hardCoded (sent (snd (legacyHandler failingProvider (exampleRequest ''POST'' markup)))) \<and>
   sent (snd (legacyHandler workingProvider (exampleRequest ''POST'' unprintable))) = [] \<and>
   statusCode (fst (legacyHandler workingProvider (exampleRequest ''POST'' unprintable))) = 500"
proof -
  have ne: "''Tom & Co'' \<noteq> []" "''A/B'' \<noteq> []" "''tom@ab.com'' \<noteq> []" "''USA'' \<noteq> []"
    "''Need <b>50</b> units'' \<noteq> []" by simp_all
  note t = truthy_inquiry[OF ne, of "[''CBB60'']"]
  have x: "legacyTexts (inquiry ''Tom & Co'' ''A/B'' ''tom@ab.com'' ''USA'' [''CBB60''] ''Need <b>50</b> units'') =
    [Inr (str ''Tom & Co''), Inr (str ''A/B''), Inr (str ''tom@ab.com''), Inr (str ''USA''),
     Inr (str ''CBB60''), Inr (str ''Need <b>50</b> units'')]"
    by (rule legacyTexts_inquiry)
  from legacy_handler_not_equivalent[of failingProvider "exampleRequest ''POST'' markup" "str ''Tom & Co''" "str ''A/B''"
      "str ''tom@ab.com''" "str ''USA''" "str ''CBB60''" "str ''Need <b>50</b> units''"] t x
  have 1: "map fetchBody (sent (snd (legacyHandler failingProvider (exampleRequest ''POST'' markup)))) =
     [\<lparr>mail_from = str ''Motor Run Capacitor <noreply@eperscapacitor.com>'',
       mail_to = [str ''sales@eperscapacitor.com''],
       mail_subject = str ''New Inquiry: Tom & Co from A/B'',
       mail_html = emailHTML (str ''Tom & Co'') (str ''A/B'') (str ''tom@ab.com'') (str ''USA'')
                     (str ''CBB60'') (str ''Need <b>50</b> units'') (now failingProvider),
       mail_reply_to = JString (str ''tom@ab.com'')\<rparr>] \<and>
     list_all hardCoded (sent (snd (legacyHandler failingProvider (exampleRequest ''POST'' markup))))"
    unfolding post_method markup_def
    by (simp add: getProp_inquiry str_append[symmetric])
  from legacy_handler_not_equivalent[of workingProvider "exampleRequest ''POST'' unprintable"] unprintable_facts
  have 2: "sent (snd (legacyHandler workingProvider (exampleRequest ''POST'' unprintable))) = [] \<and>
     statusCode (fst (legacyHandler workingProvider (exampleRequest ''POST'' unprintable))) = 500"
    unfolding post_method by blast
  from 1 2 show ?thesis by simp
qed

theorem sanitizeHtml_twice_witness:
  "sanitizeHtml (JString (sanitizeHtml (JString (str ''a<b'')))) = str ''a&amp;lt;b'' \<and>
   sanitizeHtml (JString (sanitizeHtml (JString (str ''abc'')))) = sanitizeHtml (JString (str ''abc''))"
proof -
  have 1: "sanitizeHtml (JString (str ''a<b'')) = str ''a&lt;b''"
    by (simp add: sanitize_concat esc_def str_simps)
  have 2: "replaceAll 0x26 (str ''&amp;'') (str ''a&lt;b'') = str ''a&amp;lt;b''"
    by (simp add: replaceAll_def str_simps)
  have 3: "set (str ''abc'') \<inter> specials = {}"
    by (simp add: specials_def str_simps)
  from sanitizeHtml_twice[of "str ''a<b''"] sanitizeHtml_twice[of "str ''abc''"] 1 2 3
  show ?thesis by simp
qed

theorem validateEmail_accepts_iff_witness:
  "validateEmail (JString (str '' jane@acme.com '')) = Some (str ''jane@acme.com'') \<and>
   validateEmail (JNumber (Num False (str ''5''))) \<noteq> Some (str ''5'')"
proof -
  have "\<exists>s l d1 d2. JString (str '' jane@acme.com '') = JString s \<and> 5 \<le> length s \<and> length s \<le> 255 \<and>
        trim s = l @ [0x40] @ d1 @ [0x2E] @ d2 \<and> l \<noteq> [] \<and> d1 \<noteq> [] \<and> d2 \<noteq> [] \<and>
        list_all notSpaceOrAt (l @ d1 @ d2) \<and> str ''jane@acme.com'' = sanitizeHtml (JString (trim s))"
    apply (rule exI[of _ "str '' jane@acme.com ''"])
    apply (rule exI[of _ "str ''jane''"])
    apply (rule exI[of _ "str ''acme''"])
    apply (rule exI[of _ "str ''com''"])
    apply (simp add: trim_def notSpaceOrAt_def isWhiteSpace_def sanitize_concat esc_def str_simps)
    done
  then have 1: "validateEmail (JString (str '' jane@acme.com '')) = Some (str ''jane@acme.com'')"
    by (rule validateEmail_accepts_iff[THEN iffD2])
  have 2: "validateEmail (JNumber (Num False (str ''5''))) \<noteq> Some (str ''5'')"
    using validateEmail_accepts_iff[of "JNumber (Num False (str ''5''))" "str ''5''"] by simp
  from 1 2 show ?thesis by (rule conjI)
qed

theorem validateProducts_whitelist_witness:
  "validateProducts (JArray [JString (str ''CBB61''), JString (str ''X''), JNull, JString (str ''CBB60'')]) =
     Some [str ''CBB61'', str ''CBB60''] \<and>
   validateProducts (JArray [JString (str ''UNKNOWN'')]) = validateProducts (JArray []) \<and>
   validateProducts (JArray []) = None \<and>
   validateProducts (JString (str ''CBB60'')) = None"
  using validateProducts_whitelist[of "JArray [JString (str ''CBB61''), JString (str ''X''), JNull, JString (str ''CBB60'')]"
      "[JString (str ''UNKNOWN'')]"]
    validateProducts_whitelist[of "JArray []" "[]"]
    validateProducts_whitelist[of "JString (str ''CBB60'')" "[]"]
  by (simp add: str_inject)

end
